theory Spec2Isabelle
  imports Complex_Main
begin

section \<open>Arithmetic of the program\<close>

text \<open>
  The two source files compute with double-precision numbers. The embedding reads every
  arithmetic operation over the real numbers (exact arithmetic). A division whose divisor
  is zero, and a square root or a fractional power of a negative number, have no real
  value: they are the places where the floating-point program produces an infinity, a
  not-a-number, a complex number or a \<^verbatim>\<open>ZeroDivisionError\<close>. The embedding makes each
  of them an explicit failure, so that no result is ever computed from an undefined
  quotient. (In floating point an infinite quotient can be absorbed again, since the
  arctangent of an infinity is finite; over the reals such a quotient has no value.)
\<close>

datatype error = DivisionByZero | InvalidValue

definition and_then :: "error + 'a \<Rightarrow> ('a \<Rightarrow> error + 'b) \<Rightarrow> error + 'b" where
  "and_then r f = (case r of Inl e \<Rightarrow> Inl e | Inr x \<Rightarrow> f x)"

text \<open>\<^verbatim>\<open>a / b\<close>\<close>

definition divide_chk :: "real \<Rightarrow> real \<Rightarrow> error + real" where
  "divide_chk a b = (if b = 0 then Inl DivisionByZero else Inr (a / b))"

text \<open>\<^verbatim>\<open>np.sqrt(x)\<close>\<close>

definition sqrt_chk :: "real \<Rightarrow> error + real" where
  "sqrt_chk x = (if x < 0 then Inl InvalidValue else Inr (sqrt x))"

text \<open>\<^verbatim>\<open>x ** y\<close> for the fractional exponents 1.5 and 2.5\<close>

definition power_chk :: "real \<Rightarrow> real \<Rightarrow> error + real" where
  "power_chk x y = (if x < 0 then Inl InvalidValue else Inr (x powr y))"

section \<open>The short-bearing force law (test\_short\_bearing.py)\<close>

text \<open>
  Lines 18 to 31: the auxiliary angle, returned as the triple
  \<open>(tan_kappa_1, cos_kappa_1, sin_kappa_1)\<close>. The literal \<^verbatim>\<open>1e16\<close> is \<open>10 ^ 16\<close>.
\<close>

definition kappa_1 :: "real \<Rightarrow> real \<Rightarrow> real \<Rightarrow> error + (real \<times> real \<times> real)" where
  "kappa_1 eps E G =
     (if G > 1 then
        and_then (divide_chk E (eps * (1 - G))) (\<lambda>tan_kappa_1.
        and_then (sqrt_chk (1 + tan_kappa_1 ^ 2)) (\<lambda>r.
        and_then (divide_chk 1 r) (\<lambda>cos_kappa_1.
        and_then (divide_chk tan_kappa_1 r) (\<lambda>sin_kappa_1.
        Inr (tan_kappa_1, cos_kappa_1, sin_kappa_1)))))
      else
        and_then (if G = 1 then (if E > 0 then Inr (- (10 ^ 16)) else Inr (10 ^ 16))
                  else divide_chk E (eps * (1 - G))) (\<lambda>tan_kappa_1.
        and_then (sqrt_chk (1 + tan_kappa_1 ^ 2)) (\<lambda>r.
        and_then (divide_chk (- 1) r) (\<lambda>cos_kappa_1.
        and_then (divide_chk (- tan_kappa_1) r) (\<lambda>sin_kappa_1.
        Inr (tan_kappa_1, cos_kappa_1, sin_kappa_1))))))"

text \<open>Lines 32 to 35: the phase correction.\<close>

definition piS_of :: "real \<Rightarrow> real \<Rightarrow> error + real" where
  "piS_of sin_kappa_1 cos_kappa_1 =
     and_then (divide_chk sin_kappa_1 (1 + cos_kappa_1)) (\<lambda>q.
     Inr (if q < 0 then pi else 0))"

text \<open>Line 37.\<close>

definition I1 :: "real \<Rightarrow> real \<Rightarrow> error + real" where
  "I1 eps cos_kappa_1 =
     divide_chk (2 * eps * cos_kappa_1 ^ 3) ((1 - eps ^ 2 * cos_kappa_1 ^ 2) ^ 2)"

text \<open>The term \<^verbatim>\<open>np.arctan(np.sqrt(1-eps**2)/eps/sin_kappa_1)\<close> of lines 38 and 39.\<close>

definition arctan_term :: "real \<Rightarrow> real \<Rightarrow> error + real" where
  "arctan_term eps sin_kappa_1 =
     and_then (sqrt_chk (1 - eps ^ 2)) (\<lambda>r.
     and_then (divide_chk r eps) (\<lambda>a.
     and_then (divide_chk a sin_kappa_1) (\<lambda>b.
     Inr (arctan b))))"

text \<open>Line 38.\<close>

definition I2 :: "real \<Rightarrow> real \<Rightarrow> real \<Rightarrow> real \<Rightarrow> error + real" where
  "I2 eps cos_kappa_1 sin_kappa_1 piS =
     and_then (divide_chk (- eps * sin_kappa_1 * (1 - (2 - eps ^ 2) * cos_kappa_1 ^ 2))
                 (1 - eps ^ 2)) (\<lambda>a.
     and_then (divide_chk a ((1 - eps ^ 2 * cos_kappa_1 ^ 2) ^ 2)) (\<lambda>a'.
     and_then (arctan_term eps sin_kappa_1) (\<lambda>atn.
     and_then (power_chk (1 - eps ^ 2) (3 / 2)) (\<lambda>p.
     and_then (divide_chk (piS + atn) p) (\<lambda>b.
     Inr (a' + b))))))"

text \<open>Line 39.\<close>

definition I3 :: "real \<Rightarrow> real \<Rightarrow> real \<Rightarrow> real \<Rightarrow> error + real" where
  "I3 eps cos_kappa_1 sin_kappa_1 piS =
     and_then (divide_chk
                 (- eps * sin_kappa_1 * (4 - eps ^ 2 * (1 + (2 + eps ^ 2) * cos_kappa_1 ^ 2)))
                 ((1 - eps ^ 2) ^ 2)) (\<lambda>a.
     and_then (divide_chk a ((1 - eps ^ 2 * cos_kappa_1 ^ 2) ^ 2)) (\<lambda>a'.
     and_then (arctan_term eps sin_kappa_1) (\<lambda>atn.
     and_then (power_chk (1 - eps ^ 2) (5 / 2)) (\<lambda>p.
     and_then (divide_chk ((piS + atn) * (2 + eps ^ 2)) p) (\<lambda>b.
     Inr (a' + b))))))"

text \<open>Lines 10 to 43: the function itself; the returned array is the pair \<open>(fr, fphi)\<close>.\<close>

definition fun_short_bearing :: "real \<Rightarrow> real \<Rightarrow> real \<Rightarrow> real \<Rightarrow> error + (real \<times> real)" where
  "fun_short_bearing eps epsS phiS B2D =
     (let E = 2 * epsS; G = 2 * phiS in
      if E = 0 \<and> G = 0 then
        and_then (divide_chk (2 * eps ^ 2) ((1 - eps ^ 2) ^ 2)) (\<lambda>fr.
        and_then (power_chk (1 - eps ^ 2) (3 / 2)) (\<lambda>p.
        and_then (divide_chk (- (1 / 2) * pi * eps) p) (\<lambda>fphi.
        Inr (fr, fphi))))
      else
        and_then (kappa_1 eps E G) (\<lambda>(tan_kappa_1, cos_kappa_1, sin_kappa_1).
        and_then (piS_of sin_kappa_1 cos_kappa_1) (\<lambda>piS.
        and_then (I1 eps cos_kappa_1) (\<lambda>i1.
        and_then (I2 eps cos_kappa_1 sin_kappa_1 piS) (\<lambda>i2.
        and_then (I3 eps cos_kappa_1 sin_kappa_1 piS) (\<lambda>i3.
        Inr (B2D ^ 2 * (i2 * eps * (1 - G) - E * i1),
             B2D ^ 2 * (i1 * eps * (1 - G) + E * (i2 - i3)))))))))"

section \<open>The Jeffcott rotor (run\_Jeffcott\_journal\_bearing\_short.py)\<close>

subsection \<open>Arrays\<close>

text \<open>
  A one-dimensional array is a list of reals and a matrix is the list of its rows. The
  shapes of all arrays of the program are fixed by lines 42 to 59 (vectors of length 2, 4
  and 8, matrices 2 by 2, 4 by 4 and 8 by 8); the operations below are the numpy
  operations on arrays of matching shapes.
\<close>

type_synonym vec = "real list"
type_synonym mat = "real list list"

text \<open>\<^verbatim>\<open>np.zeros(n)\<close> and \<^verbatim>\<open>np.zeros((r,c))\<close>\<close>

definition zeros :: "nat \<Rightarrow> vec" where
  "zeros n = replicate n 0"

definition zeros2 :: "nat \<Rightarrow> nat \<Rightarrow> mat" where
  "zeros2 r c = replicate r (zeros c)"

text \<open>\<^verbatim>\<open>np.diag(v)\<close>\<close>

definition diag :: "vec \<Rightarrow> mat" where
  "diag v = map (\<lambda>i. map (\<lambda>j. if i = j then v ! i else 0) [0..<length v]) [0..<length v]"

text \<open>\<^verbatim>\<open>k*v\<close> and \<^verbatim>\<open>k*X\<close> for a scalar \<open>k\<close>\<close>

definition scale_vec :: "real \<Rightarrow> vec \<Rightarrow> vec" where
  "scale_vec k v = map (\<lambda>x. k * x) v"

definition scale_mat :: "real \<Rightarrow> mat \<Rightarrow> mat" where
  "scale_mat k X = map (scale_vec k) X"

text \<open>\<^verbatim>\<open>np.hstack\<close> of two vectors, of two matrices, and \<^verbatim>\<open>np.vstack\<close> of two matrices\<close>

definition hstack_vec :: "vec \<Rightarrow> vec \<Rightarrow> vec" where
  "hstack_vec u v = u @ v"

definition hstack :: "mat \<Rightarrow> mat \<Rightarrow> mat" where
  "hstack X Y = map2 (@) X Y"

definition vstack :: "mat \<Rightarrow> mat \<Rightarrow> mat" where
  "vstack X Y = X @ Y"

text \<open>\<^verbatim>\<open>u + v\<close>, \<^verbatim>\<open>u - v\<close>, and the products \<^verbatim>\<open>X @ v\<close>, \<^verbatim>\<open>X @ Y\<close>\<close>

definition vec_add :: "vec \<Rightarrow> vec \<Rightarrow> vec" where
  "vec_add u v = map2 (+) u v"

definition vec_sub :: "vec \<Rightarrow> vec \<Rightarrow> vec" where
  "vec_sub u v = map2 (-) u v"

definition dot :: "vec \<Rightarrow> vec \<Rightarrow> real" where
  "dot u v = sum_list (map2 (*) u v)"

definition matvec :: "mat \<Rightarrow> vec \<Rightarrow> vec" where
  "matvec X v = map (\<lambda>row. dot row v) X"

definition matmul :: "mat \<Rightarrow> mat \<Rightarrow> mat" where
  "matmul X Y = map (\<lambda>row. map (\<lambda>col. dot row col) (transpose Y)) X"

subsection \<open>The state-space matrices\<close>

text \<open>
  Modelled from the spec: the identity block \<open>I\<close> of the transition matrix that
  \<^verbatim>\<open>rd.state_space\<close> builds (the module \<^verbatim>\<open>rotordynamic\<close> is not among the source files).
\<close>

definition eye :: "nat \<Rightarrow> mat" where
  "eye n = diag (replicate n 1)"

text \<open>
  Modelled from the spec: the mass-inverse operator \<open>Minv\<close> that \<^verbatim>\<open>rd.state_space\<close>
  returns. The mass matrix of line 52 is diagonal, and the inverse is taken as the diagonal
  matrix of the reciprocals of its diagonal.
\<close>

definition inv_diag :: "mat \<Rightarrow> mat" where
  "inv_diag X = diag (map (\<lambda>i. 1 / (X ! i ! i)) [0..<length X])"

text \<open>
  Modelled from the spec: \<^verbatim>\<open>rd.state_space\<close> of the module \<^verbatim>\<open>rotordynamic\<close>, which is
  not among the source files. The specification gives the transition matrix as the block
  matrix \<open>[[0, I], [- Minv C, - Minv D]]\<close> and returns it together with the inverse
  \<open>Minv\<close> of the mass matrix.
\<close>

definition state_space :: "mat \<Rightarrow> mat \<Rightarrow> mat \<Rightarrow> mat \<times> mat" where
  "state_space Mm Dm Cm =
     (let n = length Mm;
          Minv = inv_diag Mm;
          A = vstack (hstack (zeros2 n n) (eye n))
                     (hstack (scale_mat (- 1) (matmul Minv Cm)) (scale_mat (- 1) (matmul Minv Dm)))
      in (A, Minv))"

subsection \<open>Parameters (lines 19 to 37)\<close>

text \<open>
  The centre-of-mass eccentricity is called \<^verbatim>\<open>eps\<close> in the source; it is \<open>eps_unbalance\<close>
  here, since \<open>eps\<close> is the eccentricity ratio of the force law above.
\<close>

definition g :: real where "g = 9.81"
definition m :: real where "m = 0.1"
definition mj :: real where "mj = 1 / 10 ^ 5"
definition eps_unbalance :: real where "eps_unbalance = m * (1 / 10 ^ 6)"
definition cs :: real where "cs = 10 ^ 5"
definition d :: real where "d = (1 / 10 ^ 2) * sqrt (cs * m)"
definition BB :: real where "BB = 3.5 / 10 ^ 3"
definition DB :: real where "DB = 7 / 10 ^ 3"
definition CB :: real where "CB = 15 / 10 ^ 6"
definition eta :: real where "eta = 1 / 10 ^ 2"
definition tmax :: real where "tmax = 1"
definition fmax :: real where "fmax = 500"
definition arot :: real where "arot = 2 * pi * fmax / tmax"

subsection \<open>System matrices (lines 52 to 59)\<close>

definition M :: mat where
  "M = diag [mj, m, mj, m]"

text \<open>The block \<^verbatim>\<open>O\<close> of line 54 (\<open>O\<close> is relation composition in HOL).\<close>

definition O_mat :: mat where
  "O_mat = [[1, - 1], [- 1, 1]]"

definition D :: mat where
  "D = vstack (hstack (scale_mat d O_mat) (zeros2 2 2)) (hstack (zeros2 2 2) (scale_mat d O_mat))"

definition C :: mat where
  "C = vstack (hstack (scale_mat cs O_mat) (zeros2 2 2)) (hstack (zeros2 2 2) (scale_mat cs O_mat))"

definition A :: mat where
  "A = fst (state_space M D C)"

definition Minv :: mat where
  "Minv = snd (state_space M D C)"

definition gvec :: vec where
  "gvec = scale_vec g (hstack_vec (zeros 6) [1, 1])"

subsection \<open>The derivative function (lines 42 to 47)\<close>

text \<open>
  \<^verbatim>\<open>rd.bearing_journal_short\<close> and \<^verbatim>\<open>rd.unbalance_const_acc\<close> belong to the module
  \<^verbatim>\<open>rotordynamic\<close>, which is not among the source files; they are parameters of the
  model. Each returns a vector with two components. The state is
  \<open>q = [xj, xm, yj, ym, xdj, xdm, ydj, ydm]\<close> (line 63).
\<close>

definition rotor_Jeffcott ::
  "(vec \<Rightarrow> real \<Rightarrow> real \<Rightarrow> real \<Rightarrow> real \<Rightarrow> real \<Rightarrow> vec) \<Rightarrow> (real \<Rightarrow> real \<Rightarrow> real \<Rightarrow> vec)
     \<Rightarrow> real \<Rightarrow> vec \<Rightarrow> vec" where
  "rotor_Jeffcott bearing_journal_short unbalance_const_acc t q =
     (let FB = scale_vec 2
                 (bearing_journal_short [q ! 0, q ! 2, q ! 4, q ! 6] BB DB CB eta (arot * t));
          FU = unbalance_const_acc t eps_unbalance arot;
          Fvec = [FB ! 0, FU ! 0, FB ! 1, FU ! 1];
          fvec = hstack_vec (zeros 4) (matvec Minv Fvec)
      in vec_sub (vec_add (matvec A q) fvec) gvec)"

text \<open>
  Symmetry and positive semi-definiteness of a square matrix, the invariant that the
  specification states for the system matrices.
\<close>

definition symmetric :: "mat \<Rightarrow> bool" where
  "symmetric X \<longleftrightarrow> transpose X = X"

definition pos_semidef :: "mat \<Rightarrow> bool" where
  "pos_semidef X \<longleftrightarrow> (\<forall>x. length x = length X \<longrightarrow> 0 \<le> dot x (matvec X x))"

section \<open>Basic facts about the checked operations\<close>

lemma and_then_Inr [simp]: "and_then (Inr x) f = f x"
  by (simp add: and_then_def)

lemma and_then_Inl [simp]: "and_then (Inl e) f = Inl e"
  by (simp add: and_then_def)

lemma divide_chk_zero [simp]: "divide_chk a 0 = Inl DivisionByZero"
  by (simp add: divide_chk_def)

lemma divide_chk_nonzero [simp]: "b \<noteq> 0 \<Longrightarrow> divide_chk a b = Inr (a / b)"
  by (simp add: divide_chk_def)

lemma sqrt_chk_nonneg [simp]: "0 \<le> x \<Longrightarrow> sqrt_chk x = Inr (sqrt x)"
  by (simp add: sqrt_chk_def)

lemma power_chk_nonneg [simp]: "0 \<le> x \<Longrightarrow> power_chk x y = Inr (x powr y)"
  by (simp add: power_chk_def)

lemma one_plus_square_pos: "0 < 1 + (t::real) ^ 2"
  by (simp add: add_pos_nonneg)

lemma sqrt_one_plus_square_nonzero [simp]: "sqrt (1 + (t::real) ^ 2) \<noteq> 0"
  using one_plus_square_pos [of t] by simp

lemma one_plus_square_nonzero [simp]: "1 + (t::real) ^ 2 \<noteq> 0"
  using one_plus_square_pos [of t] by simp

lemma one_minus_square_pos: "0 \<le> eps \<Longrightarrow> eps < 1 \<Longrightarrow> 0 < 1 - (eps::real) ^ 2"
  using abs_square_less_1 [of eps] by simp

lemma one_minus_eps_cos_pos:
  assumes "0 \<le> eps" "eps < 1" "\<bar>c\<bar> \<le> 1"
  shows "0 < 1 - (eps::real) ^ 2 * c ^ 2"
proof -
  have "eps ^ 2 < 1" using assms abs_square_less_1 [of eps] by simp
  moreover have "c ^ 2 \<le> 1" using assms abs_square_le_1 [of c] by simp
  moreover have "0 \<le> c ^ 2" "0 \<le> eps ^ 2" by simp_all
  ultimately have "eps ^ 2 * c ^ 2 < 1 * 1"
    by (metis mult_le_cancel_left1 mult.right_neutral mult_left_le not_less order_less_le_trans mult.commute)
  then show ?thesis by simp
qed

section \<open>The stages of the force law where they are defined\<close>

lemma kappa_1_pos:
  "1 < G \<Longrightarrow> kappa_1 eps E G =
     and_then (divide_chk E (eps * (1 - G))) (\<lambda>t.
       Inr (t, 1 / sqrt (1 + t ^ 2), t / sqrt (1 + t ^ 2)))"
  by (simp add: kappa_1_def and_then_def divide_chk_def add_nonneg_nonneg split: sum.splits)

lemma kappa_1_neg:
  "G < 1 \<Longrightarrow> kappa_1 eps E G =
     and_then (divide_chk E (eps * (1 - G))) (\<lambda>t.
       Inr (t, - (1 / sqrt (1 + t ^ 2)), - (t / sqrt (1 + t ^ 2))))"
  by (simp add: kappa_1_def and_then_def divide_chk_def add_nonneg_nonneg split: sum.splits)

lemma kappa_1_one:
  "kappa_1 eps E 1 =
     (let t = (if E > 0 then - (10 ^ 16) else 10 ^ 16)
      in Inr (t, - (1 / sqrt (1 + t ^ 2)), - (t / sqrt (1 + t ^ 2))))"
  by (simp add: kappa_1_def Let_def)

lemma piS_of_val:
  "1 + c \<noteq> 0 \<Longrightarrow> piS_of s c = Inr (if s / (1 + c) < 0 then pi else 0)"
  by (simp add: piS_of_def)

lemma I1_val:
  "0 \<le> eps \<Longrightarrow> eps < 1 \<Longrightarrow> \<bar>c\<bar> \<le> 1 \<Longrightarrow>
   I1 eps c = Inr (2 * eps * c ^ 3 / (1 - eps ^ 2 * c ^ 2) ^ 2)"
  using one_minus_eps_cos_pos [of eps c] by (simp add: I1_def)

lemma arctan_term_val:
  "0 < eps \<Longrightarrow> eps < 1 \<Longrightarrow> s \<noteq> 0 \<Longrightarrow>
   arctan_term eps s = Inr (arctan (sqrt (1 - eps ^ 2) / eps / s))"
  using one_minus_square_pos [of eps] by (simp add: arctan_term_def)

lemma I2_val:
  assumes "0 < eps" "eps < 1" "\<bar>c\<bar> \<le> 1" "s \<noteq> 0"
  shows "I2 eps c s piS =
     Inr (- eps * s * (1 - (2 - eps ^ 2) * c ^ 2) / (1 - eps ^ 2) / (1 - eps ^ 2 * c ^ 2) ^ 2
          + (piS + arctan (sqrt (1 - eps ^ 2) / eps / s)) / (1 - eps ^ 2) powr (3 / 2))"
  using one_minus_eps_cos_pos [of eps c] one_minus_square_pos [of eps] assms
  by (simp add: I2_def arctan_term_val)

lemma I3_val:
  assumes "0 < eps" "eps < 1" "\<bar>c\<bar> \<le> 1" "s \<noteq> 0"
  shows "I3 eps c s piS =
     Inr (- eps * s * (4 - eps ^ 2 * (1 + (2 + eps ^ 2) * c ^ 2)) / (1 - eps ^ 2) ^ 2
            / (1 - eps ^ 2 * c ^ 2) ^ 2
          + (piS + arctan (sqrt (1 - eps ^ 2) / eps / s)) * (2 + eps ^ 2)
            / (1 - eps ^ 2) powr (5 / 2))"
  using one_minus_eps_cos_pos [of eps c] one_minus_square_pos [of eps] assms
  by (simp add: I3_def arctan_term_val)

section \<open>Numerical bounds\<close>

text \<open>
  Partial sums of the alternating arctangent series enclose the arctangent; with Machin's
  formula they enclose \<open>pi\<close>.
\<close>

lemma arctan_series_bounds:
  fixes x :: real
  assumes "0 \<le> x" "x \<le> 1"
  shows "(\<Sum>i<2 * n. (- 1) ^ i * (1 / real (i * 2 + 1) * x ^ (i * 2 + 1))) \<le> arctan x"
    and "arctan x \<le> (\<Sum>i<2 * n + 1. (- 1) ^ i * (1 / real (i * 2 + 1) * x ^ (i * 2 + 1)))"
proof -
  let ?a = "\<lambda>n. 1 / real (n * 2 + 1) * x ^ (n * 2 + 1)"
  have ax: "\<bar>x\<bar> \<le> 1" using assms by simp
  have z: "?a \<longlonglongrightarrow> 0" by (rule zeroseq_arctan_series [OF ax])
  have p: "\<And>n. 0 \<le> ?a n" using assms by simp
  have m: "\<And>n. ?a (Suc n) \<le> ?a n"
  proof -
    fix n
    have "x ^ (Suc n * 2 + 1) \<le> x ^ (n * 2 + 1)"
      using assms by (intro power_decreasing) simp_all
    moreover have "1 / real (Suc n * 2 + 1) \<le> 1 / real (n * 2 + 1)"
      by (intro divide_left_mono) simp_all
    ultimately show "?a (Suc n) \<le> ?a n"
      using assms by (intro mult_mono) simp_all
  qed
  have s: "arctan x = (\<Sum>k. (- 1) ^ k * ?a k)" by (rule arctan_series [OF ax])
  show "(\<Sum>i<2 * n. (- 1) ^ i * ?a i) \<le> arctan x"
    unfolding s by (rule summable_Leibniz'(2) [OF z p m])
  show "arctan x \<le> (\<Sum>i<2 * n + 1. (- 1) ^ i * ?a i)"
    unfolding s by (rule summable_Leibniz'(4) [OF z p m])
qed

lemma pi_bounds: "3.14159 < pi" "pi < 3.14163"
proof -
  have l5: "(\<Sum>i<2 * 2. (- 1) ^ i * (1 / real (i * 2 + 1) * (1 / 5) ^ (i * 2 + 1))) \<le> arctan (1 / 5 :: real)"
    by (rule arctan_series_bounds(1)) simp_all
  have u5: "arctan (1 / 5 :: real) \<le> (\<Sum>i<2 * 1 + 1. (- 1) ^ i * (1 / real (i * 2 + 1) * (1 / 5) ^ (i * 2 + 1)))"
    by (rule arctan_series_bounds(2)) simp_all
  have l239: "(\<Sum>i<2 * 1. (- 1) ^ i * (1 / real (i * 2 + 1) * (1 / 239) ^ (i * 2 + 1))) \<le> arctan (1 / 239 :: real)"
    by (rule arctan_series_bounds(1)) simp_all
  have u239: "arctan (1 / 239 :: real) \<le> (\<Sum>i<2 * 0 + 1. (- 1) ^ i * (1 / real (i * 2 + 1) * (1 / 239) ^ (i * 2 + 1)))"
    by (rule arctan_series_bounds(2)) simp_all
  have e: "pi = 16 * arctan (1 / 5) - 4 * arctan (1 / 239)"
    using machin by simp
  have l5': "(1 / 5 - 1 / 375 + 1 / 15625 - 1 / 546875 :: real) \<le> arctan (1 / 5)"
    using l5 by (simp add: numeral_eq_Suc)
  have u5': "arctan (1 / 5) \<le> (1 / 5 - 1 / 375 + 1 / 15625 :: real)"
    using u5 by (simp add: numeral_eq_Suc)
  have l239': "(1 / 239 - 1 / 40955757 :: real) \<le> arctan (1 / 239)"
    using l239 by (simp add: numeral_eq_Suc)
  have u239': "arctan (1 / 239) \<le> (1 / 239 :: real)"
    using u239 by simp
  show "3.14159 < pi" using l5' u239' unfolding e by simp
  show "pi < 3.14163" using u5' l239' unfolding e by simp
qed

lemma sqrt3_bounds: "1.73205 < sqrt 3" "sqrt 3 < 1.73206"
proof -
  show "1.73205 < sqrt 3" by (rule real_less_rsqrt) (simp add: power2_eq_square)
  show "sqrt 3 < 1.73206" by (rule real_less_lsqrt) (simp_all add: power2_eq_square)
qed

lemma three_quarters_powr: "(3 / 4 :: real) powr (3 / 2) = 3 * sqrt 3 / 8"
proof -
  have "(3 / 4 :: real) powr (3 / 2) = (3 / 4) powr (1 + 1 / 2)" by simp
  also have "\<dots> = (3 / 4) powr 1 * (3 / 4) powr (1 / 2)" by (rule powr_add)
  also have "\<dots> = (3 / 4) * sqrt (3 / 4)" by (simp add: powr_half_sqrt)
  also have "\<dots> = 3 * sqrt 3 / 8" by (simp add: real_sqrt_divide)
  finally show ?thesis .
qed

section \<open>Pure rotation\<close>

text \<open>
  Claim C1. For every \<open>eps\<close> strictly between 0 and 1 and every \<open>B2D\<close>, with
  \<open>epsS = 0\<close> and \<open>phiS = 0\<close> the function returns exactly
  \<open>fr = 2 eps\<^sup>2 / (1 - eps\<^sup>2)\<^sup>2\<close> and \<open>fphi = - 0.5 pi eps / (1 - eps\<^sup>2) ** 1.5\<close>. In
  particular, at \<open>(0.5, 0, 0, 0.5)\<close> the radial force is \<open>8 / 9\<close>, which is 0.8888889 to
  seven decimals, and the tangential force is \<open>- 1.2092\<close> to four decimals.
\<close>

theorem C1_pure_rotation:
  "(0 < eps \<and> eps < 1 \<longrightarrow>
      fun_short_bearing eps 0 0 B2D =
        Inr (2 * eps ^ 2 / (1 - eps ^ 2) ^ 2,
             - (1 / 2) * pi * eps / (1 - eps ^ 2) powr (3 / 2)))
   \<and> (\<exists>fphi. fun_short_bearing (1 / 2) 0 0 (1 / 2) = Inr (8 / 9, fphi)
         \<and> \<bar>fphi - (- 1.2092)\<bar> < 5 / 10 ^ 5)
   \<and> \<bar>8 / 9 - 0.8888889\<bar> < (1 / 10 ^ 7 :: real)"
proof (intro conjI impI)
  assume a: "0 < eps \<and> eps < 1"
  then have p: "0 < 1 - eps ^ 2" using one_minus_square_pos [of eps] by simp
  then have "(1 - eps ^ 2) powr (3 / 2) \<noteq> 0" by simp
  with p show "fun_short_bearing eps 0 0 B2D =
        Inr (2 * eps ^ 2 / (1 - eps ^ 2) ^ 2,
             - (1 / 2) * pi * eps / (1 - eps ^ 2) powr (3 / 2))"
    by (simp add: fun_short_bearing_def)
next
  define q where "q = 2 * pi / (3 * sqrt 3)"
  have s: "0 < sqrt 3" by simp
  have v: "fun_short_bearing (1 / 2) 0 0 (1 / 2) = Inr (8 / 9, - q)"
    using s by (simp add: fun_short_bearing_def power2_eq_square three_quarters_powr q_def)
  have lo: "1.20915 * (3 * sqrt 3) < 2 * pi"
    using sqrt3_bounds(2) pi_bounds(1) by simp
  have hi: "2 * pi < 1.20925 * (3 * sqrt 3)"
    using sqrt3_bounds(1) pi_bounds(2) by simp
  have "1.20915 < q" "q < 1.20925"
    unfolding q_def using lo hi s by (simp_all add: pos_less_divide_eq pos_divide_less_eq)
  then have "\<bar>- q - (- 1.2092)\<bar> < 5 / 10 ^ 5" by (simp only: abs_less_iff) simp
  with v show "\<exists>fphi. fun_short_bearing (1 / 2) 0 0 (1 / 2) = Inr (8 / 9, fphi)
         \<and> \<bar>fphi - (- 1.2092)\<bar> < 5 / 10 ^ 5" by blast
next
  show "\<bar>8 / 9 - 0.8888889\<bar> < (1 / 10 ^ 7 :: real)" by simp
qed

theorem C1_pure_rotation_witness:
  "0 < (7 / 10 :: real) \<and> (7 / 10 :: real) < 1 \<and>
   fun_short_bearing (7 / 10) 0 0 (1 / 2) =
     Inr (2 * (7 / 10) ^ 2 / (1 - (7 / 10) ^ 2) ^ 2,
          - (1 / 2) * pi * (7 / 10) / (1 - (7 / 10) ^ 2) powr (3 / 2))"
  using C1_pure_rotation [of "7 / 10" "1 / 2"] by simp

section \<open>Selection of the auxiliary angle\<close>

text \<open>
  Claim C4. In the rotation and squeeze branch the auxiliary angle is selected as follows.
  For \<open>G > 1\<close> the tangent is \<open>E / (eps (1 - G))\<close> and the cosine and the sine are
  \<open>1 / sqrt (1 + tan\<^sup>2)\<close> and \<open>tan / sqrt (1 + tan\<^sup>2)\<close>, unnegated. For \<open>G < 1\<close> the
  tangent has the same formula and the cosine and the sine are both negated. For \<open>G = 1\<close>
  the tangent is \<open>- 10\<^sup>1\<^sup>6\<close> when \<open>E > 0\<close> and \<open>10\<^sup>1\<^sup>6\<close> otherwise, with the cosine and
  the sine of the negated branch. The quotient \<open>E / (eps (1 - G))\<close> is the checked
  division of the program: it fails when \<open>eps = 0\<close>.
\<close>

theorem C4_kappa_selection:
  "(1 < G \<longrightarrow> kappa_1 eps E G =
      and_then (divide_chk E (eps * (1 - G))) (\<lambda>t.
        Inr (t, 1 / sqrt (1 + t ^ 2), t / sqrt (1 + t ^ 2))))
   \<and> (G < 1 \<longrightarrow> kappa_1 eps E G =
      and_then (divide_chk E (eps * (1 - G))) (\<lambda>t.
        Inr (t, - (1 / sqrt (1 + t ^ 2)), - (t / sqrt (1 + t ^ 2)))))
   \<and> (0 < E \<longrightarrow> kappa_1 eps E 1 =
        Inr (- (10 ^ 16), - (1 / sqrt (1 + (- (10 ^ 16)) ^ 2)),
             - (- (10 ^ 16) / sqrt (1 + (- (10 ^ 16)) ^ 2))))
   \<and> (\<not> 0 < E \<longrightarrow> kappa_1 eps E 1 =
        Inr (10 ^ 16, - (1 / sqrt (1 + (10 ^ 16) ^ 2)),
             - (10 ^ 16 / sqrt (1 + (10 ^ 16) ^ 2))))"
  using kappa_1_pos [of G eps E] kappa_1_neg [of G eps E] kappa_1_one [of eps E]
  by (simp add: Let_def)

theorem C4_kappa_selection_witness:
  "(1 < (2 :: real) \<and> kappa_1 (7 / 10) 2 2 =
      and_then (divide_chk 2 (7 / 10 * (1 - 2))) (\<lambda>t.
        Inr (t, 1 / sqrt (1 + t ^ 2), t / sqrt (1 + t ^ 2))))
   \<and> ((0 :: real) < 1 \<and> kappa_1 (7 / 10) 2 0 =
      and_then (divide_chk 2 (7 / 10 * (1 - 0))) (\<lambda>t.
        Inr (t, - (1 / sqrt (1 + t ^ 2)), - (t / sqrt (1 + t ^ 2)))))
   \<and> ((0 :: real) < 2 \<and> kappa_1 (7 / 10) 2 1 =
        Inr (- (10 ^ 16), - (1 / sqrt (1 + (- (10 ^ 16)) ^ 2)),
             - (- (10 ^ 16) / sqrt (1 + (- (10 ^ 16)) ^ 2))))
   \<and> (\<not> (0 :: real) < 0 \<and> kappa_1 (7 / 10) 0 1 =
        Inr (10 ^ 16, - (1 / sqrt (1 + (10 ^ 16) ^ 2)),
             - (10 ^ 16 / sqrt (1 + (10 ^ 16) ^ 2))))"
  using C4_kappa_selection [of 2 "7 / 10" 2] C4_kappa_selection [of 0 "7 / 10" 2]
    C4_kappa_selection [of 0 "7 / 10" 0]
  by simp

section \<open>The rotation and squeeze branch where it is defined\<close>

lemma fun_short_bearing_squeeze:
  assumes "0 < eps" "eps < 1" "epsS \<noteq> 0 \<or> phiS \<noteq> 0"
    and k: "kappa_1 eps (2 * epsS) (2 * phiS) = Inr (t, c, s)"
    and c: "\<bar>c\<bar> \<le> 1" "1 + c \<noteq> 0" and s: "s \<noteq> 0"
  shows "fun_short_bearing eps epsS phiS B2D =
    (let piS = (if s / (1 + c) < 0 then pi else 0);
         atn = arctan (sqrt (1 - eps ^ 2) / eps / s);
         i1 = 2 * eps * c ^ 3 / (1 - eps ^ 2 * c ^ 2) ^ 2;
         i2 = - eps * s * (1 - (2 - eps ^ 2) * c ^ 2) / (1 - eps ^ 2) / (1 - eps ^ 2 * c ^ 2) ^ 2
              + (piS + atn) / (1 - eps ^ 2) powr (3 / 2);
         i3 = - eps * s * (4 - eps ^ 2 * (1 + (2 + eps ^ 2) * c ^ 2)) / (1 - eps ^ 2) ^ 2
                / (1 - eps ^ 2 * c ^ 2) ^ 2
              + (piS + atn) * (2 + eps ^ 2) / (1 - eps ^ 2) powr (5 / 2)
     in Inr (B2D ^ 2 * (i2 * eps * (1 - 2 * phiS) - 2 * epsS * i1),
             B2D ^ 2 * (i1 * eps * (1 - 2 * phiS) + 2 * epsS * (i2 - i3))))"
proof -
  have e: "0 \<le> eps" using assms by simp
  have n: "\<not> (2 * epsS = 0 \<and> 2 * phiS = 0)" using assms by simp
  show ?thesis
    unfolding fun_short_bearing_def Let_def
    by (simp only: n if_False k and_then_Inr prod.case piS_of_val [OF c(2)]
        I1_val [OF e assms(2) c(1)] I2_val [OF assms(1,2) c(1) s] I3_val [OF assms(1,2) c(1) s])
qed

lemma sqrt_one_plus_square_gt_1: "t \<noteq> 0 \<Longrightarrow> 1 < sqrt (1 + (t::real) ^ 2)"
  by simp

lemma cos_abs_less_1: "t \<noteq> 0 \<Longrightarrow> \<bar>1 / sqrt (1 + (t::real) ^ 2)\<bar> < 1"
proof -
  assume "t \<noteq> 0"
  then have g: "1 < sqrt (1 + t ^ 2)" by (rule sqrt_one_plus_square_gt_1)
  have r: "\<bar>1 / x\<bar> < 1" if "1 < x" for x :: real
    using that by simp
  from g show ?thesis by (rule r)
qed

lemma kappa_1_squeeze:
  assumes "eps \<noteq> 0" "E \<noteq> 0" "G \<noteq> 1"
  shows "\<exists>t c s. kappa_1 eps E G = Inr (t, c, s) \<and> t = E / (eps * (1 - G)) \<and> t \<noteq> 0
           \<and> c = (if 1 < G then 1 else - 1) / sqrt (1 + t ^ 2)
           \<and> s = (if 1 < G then 1 else - 1) * t / sqrt (1 + t ^ 2)
           \<and> \<bar>c\<bar> < 1 \<and> s \<noteq> 0"
proof (cases "1 < G")
  case True
  then show ?thesis
    using assms cos_abs_less_1 [of "E / (eps * (1 - G))"] by (simp add: kappa_1_pos)
next
  case False
  then have "G < 1" using assms by simp
  then show ?thesis
    using assms cos_abs_less_1 [of "E / (eps * (1 - G))"] by (simp add: kappa_1_neg)
qed

lemma kappa_1_singular:
  "\<exists>t c s. kappa_1 eps E 1 = Inr (t, c, s) \<and> t = (if 0 < E then - (10 ^ 16) else 10 ^ 16)
           \<and> c = - (1 / sqrt (1 + t ^ 2)) \<and> s = - (t / sqrt (1 + t ^ 2))
           \<and> \<bar>c\<bar> < 1 \<and> s \<noteq> 0"
  using cos_abs_less_1 [of "10 ^ 16"] by (simp add: kappa_1_one Let_def)

lemma fun_short_bearing_defined:
  assumes "0 < eps" "eps < 1" "epsS \<noteq> 0 \<or> phiS = 1 / 2"
  shows "\<exists>fr fphi. fun_short_bearing eps epsS phiS B2D = Inr (fr, fphi)"
proof -
  have "\<exists>t c s. kappa_1 eps (2 * epsS) (2 * phiS) = Inr (t, c, s) \<and> \<bar>c\<bar> < 1 \<and> s \<noteq> 0"
  proof (cases "2 * phiS = 1")
    case True
    then show ?thesis using kappa_1_singular [of eps "2 * epsS"] by auto
  next
    case False
    then have "epsS \<noteq> 0" using assms by auto
    then show ?thesis
      using kappa_1_squeeze [of eps "2 * epsS" "2 * phiS"] False assms by auto
  qed
  then obtain t c s where k: "kappa_1 eps (2 * epsS) (2 * phiS) = Inr (t, c, s)"
    and c: "\<bar>c\<bar> < 1" and s: "s \<noteq> 0" by blast
  have c1: "\<bar>c\<bar> \<le> 1" and c2: "1 + c \<noteq> 0" using c by auto
  have "epsS \<noteq> 0 \<or> phiS \<noteq> 0" using assms by auto
  from fun_short_bearing_squeeze [OF assms(1,2) this k c1 c2 s, of B2D]
  show ?thesis by (simp add: Let_def)
qed

section \<open>Failures of the force law\<close>

lemma kappa_1_error: "kappa_1 eps E G = Inl e \<Longrightarrow> e = DivisionByZero"
  by (auto simp: kappa_1_def and_then_def divide_chk_def add_nonneg_nonneg
      split: if_splits sum.splits)

lemma piS_of_error: "piS_of s c = Inl e \<Longrightarrow> e = DivisionByZero"
  by (auto simp: piS_of_def and_then_def divide_chk_def split: if_splits sum.splits)

lemma I1_error: "I1 eps c = Inl e \<Longrightarrow> e = DivisionByZero"
  by (auto simp: I1_def divide_chk_def split: if_splits)

lemma fun_short_bearing_eps_1: "fun_short_bearing 1 epsS phiS B2D = Inl DivisionByZero"
proof (cases "2 * epsS = 0 \<and> 2 * phiS = 0")
  case True
  then show ?thesis by (simp add: fun_short_bearing_def)
next
  case False
  have i2: "I2 1 c s p = Inl DivisionByZero" for c s p
    by (simp add: I2_def)
  show ?thesis
    unfolding fun_short_bearing_def Let_def
    by (simp only: False if_False)
       (auto simp: and_then_def i2 split: sum.splits
          dest: kappa_1_error piS_of_error I1_error)
qed

text \<open>
  Claim C5, as amended. The force law never clamps \<open>eps\<close>. For every \<open>eps\<close> with
  \<open>0 \<le> eps < 1\<close> and every value \<open>c\<close> of the cosine with \<open>\<bar>c\<bar> \<le> 1\<close>, the denominators
  \<open>1 - eps\<^sup>2\<close> and \<open>1 - eps\<^sup>2 c\<^sup>2\<close> are strictly positive. At \<open>eps = 1\<close> the denominator
  \<open>1 - eps\<^sup>2\<close> is zero, while \<open>1 - eps\<^sup>2 c\<^sup>2\<close> is zero only when \<open>\<bar>c\<bar> = 1\<close>; every
  evaluation at \<open>eps = 1\<close> divides by zero and fails instead of being clamped.
\<close>

theorem C5_denominators:
  "(0 \<le> eps \<and> eps < 1 \<and> \<bar>c\<bar> \<le> 1 \<longrightarrow> 0 < 1 - (eps :: real) ^ 2 \<and> 0 < 1 - eps ^ 2 * (c :: real) ^ 2)
   \<and> (1 - 1 ^ 2 * c ^ 2 = 0 \<longleftrightarrow> \<bar>c\<bar> = 1)
   \<and> divide_chk x (1 - 1 ^ 2) = Inl DivisionByZero
   \<and> fun_short_bearing 1 epsS phiS B2D = Inl DivisionByZero"
proof (intro conjI impI)
  assume a: "0 \<le> eps \<and> eps < 1 \<and> \<bar>c\<bar> \<le> 1"
  then show "0 < 1 - eps ^ 2" using one_minus_square_pos [of eps] by simp
  from a show "0 < 1 - eps ^ 2 * c ^ 2" using one_minus_eps_cos_pos [of eps c] by simp
next
  have "c ^ 2 = 1 \<longleftrightarrow> \<bar>c\<bar> = 1" by (simp add: power2_eq_1_iff abs_if)
  then show "(1 - 1 ^ 2 * c ^ 2 = 0) = (\<bar>c\<bar> = 1)" by auto
next
  show "divide_chk x (1 - 1 ^ 2) = Inl DivisionByZero" by simp
next
  show "fun_short_bearing 1 epsS phiS B2D = Inl DivisionByZero"
    by (rule fun_short_bearing_eps_1)
qed

theorem C5_denominators_witness:
  "(0 \<le> (7 / 10 :: real) \<and> (7 / 10 :: real) < 1 \<and> \<bar>- 1 :: real\<bar> \<le> 1)
   \<and> 0 < 1 - (7 / 10 :: real) ^ 2 \<and> 0 < 1 - (7 / 10 :: real) ^ 2 * (- 1) ^ 2
   \<and> fun_short_bearing 1 1 1 (1 / 2) = Inl DivisionByZero"
  using C5_denominators [of "7 / 10" "- 1" 0 1 1 "1 / 2"] by simp

text \<open>
  The claim as stated has both denominators zero at \<open>eps = 1\<close>. At \<open>eps = 1\<close>, \<open>E = 2\<close>
  and \<open>G = 0\<close> the cosine is \<open>- 1 / sqrt 5\<close> and the second denominator is \<open>4 / 5\<close>.
\<close>

theorem C5_counterexample:
  "kappa_1 1 2 0 = Inr (2, - (1 / sqrt 5), - (2 / sqrt 5))
   \<and> 1 - 1 ^ 2 * (- (1 / sqrt 5)) ^ 2 = (4 / 5 :: real)
   \<and> (4 / 5 :: real) \<noteq> 0"
  by (simp add: kappa_1_neg power_divide)

lemma arctan_term_sin_0: "0 < eps \<Longrightarrow> eps < 1 \<Longrightarrow> arctan_term eps 0 = Inl DivisionByZero"
  using one_minus_square_pos [of eps] by (simp add: arctan_term_def)

lemma I2_fails_of_arctan_term:
  "arctan_term eps s = Inl DivisionByZero \<Longrightarrow> I2 eps c s p = Inl DivisionByZero"
  by (auto simp: I2_def and_then_def divide_chk_def split: if_splits sum.splits)

lemma fun_short_bearing_fails_of_arctan_term:
  assumes "\<not> (epsS = 0 \<and> phiS = 0)"
    and "\<And>t c s. kappa_1 eps (2 * epsS) (2 * phiS) = Inr (t, c, s)
           \<Longrightarrow> arctan_term eps s = Inl DivisionByZero"
  shows "fun_short_bearing eps epsS phiS B2D = Inl DivisionByZero"
proof -
  have n: "\<not> (2 * epsS = 0 \<and> 2 * phiS = 0)" using assms(1) by simp
  show ?thesis
    unfolding fun_short_bearing_def Let_def
    by (simp only: n if_False)
       (auto simp: and_then_def split: sum.splits
          dest: kappa_1_error piS_of_error I1_error
          dest!: assms(2) simp: I2_fails_of_arctan_term)
qed

text \<open>
  Claim C9, as amended. For every \<open>eps\<close> strictly between 0 and 1 and every \<open>G\<close> other
  than 0 and 1, the input \<open>epsS = 0\<close> makes the rotation and squeeze branch fail over exact
  arithmetic: the tangent is 0, hence the sine is 0 and the cosine is 1 or \<open>- 1\<close>, and the
  argument of the arctangent divides by the sine. When moreover \<open>G < 1\<close> the cosine is
  \<open>- 1\<close> and the guard \<open>sin / (1 + cos)\<close> of the phase correction is \<open>0 / 0\<close>. The
  regression fixtures \<open>(0.7, 0, 1, 0.5)\<close> and \<open>(0.7, 0, - 0.5, 0.5)\<close> are of this kind.
\<close>

theorem C9_zero_radial_speed:
  "(0 < eps \<and> eps < 1 \<and> 2 * phiS \<noteq> 0 \<and> 2 * phiS \<noteq> 1 \<longrightarrow>
      kappa_1 eps (2 * 0) (2 * phiS) = Inr (0, if 1 < 2 * phiS then 1 else - 1, 0)
      \<and> arctan_term eps 0 = Inl DivisionByZero
      \<and> (2 * phiS < 1 \<longrightarrow> piS_of 0 (- 1) = Inl DivisionByZero)
      \<and> fun_short_bearing eps 0 phiS B2D = Inl DivisionByZero)
   \<and> fun_short_bearing (7 / 10) 0 1 (1 / 2) = Inl DivisionByZero
   \<and> fun_short_bearing (7 / 10) 0 (- (1 / 2)) (1 / 2) = Inl DivisionByZero"
proof -
  have r: "kappa_1 e (2 * 0) (2 * p) = Inr (0, if 1 < 2 * p then 1 else - 1, 0)
      \<and> arctan_term e 0 = Inl DivisionByZero
      \<and> (2 * p < 1 \<longrightarrow> piS_of 0 (- 1) = Inl DivisionByZero)
      \<and> fun_short_bearing e 0 p b = Inl DivisionByZero"
    if a: "0 < e \<and> e < 1 \<and> 2 * p \<noteq> 0 \<and> 2 * p \<noteq> 1" for e p b
  proof -
    have k: "kappa_1 e (2 * 0) (2 * p) = Inr (0, if 1 < 2 * p then 1 else - 1, 0)"
    proof (cases "1 < 2 * p")
      case True
      then show ?thesis using a by (simp add: kappa_1_pos)
    next
      case False
      with a have "2 * p < 1" by simp
      then show ?thesis using a by (simp add: kappa_1_neg)
    qed
    have t: "arctan_term e 0 = Inl DivisionByZero"
      using a by (simp add: arctan_term_sin_0)
    have q: "piS_of 0 (- 1) = Inl DivisionByZero" by (simp add: piS_of_def)
    have n: "\<not> ((0 :: real) = 0 \<and> p = 0)" using a by simp
    have f: "fun_short_bearing e 0 p b = Inl DivisionByZero"
      by (rule fun_short_bearing_fails_of_arctan_term [OF n]) (use k t in simp)
    from k t q f show ?thesis by simp
  qed
  have f1: "fun_short_bearing (7 / 10) 0 1 (1 / 2) = Inl DivisionByZero"
    using r [of "7 / 10" 1 "1 / 2"] by simp
  have f2: "fun_short_bearing (7 / 10) 0 (- (1 / 2)) (1 / 2) = Inl DivisionByZero"
    using r [of "7 / 10" "- (1 / 2)" "1 / 2"] by simp
  from r [of eps phiS B2D] f1 f2 show ?thesis by blast
qed

theorem C9_zero_radial_speed_witness:
  "(0 < (7 / 10 :: real) \<and> (7 / 10 :: real) < 1 \<and> 2 * (1 :: real) \<noteq> 0 \<and> 2 * (1 :: real) \<noteq> 1)
   \<and> fun_short_bearing (7 / 10) 0 1 (1 / 2) = Inl DivisionByZero
   \<and> kappa_1 (7 / 10) (2 * 0) (2 * 1) = Inr (0, 1, 0)
   \<and> fun_short_bearing (7 / 10) 0 (- (1 / 2)) (1 / 2) = Inl DivisionByZero
   \<and> kappa_1 (7 / 10) (2 * 0) (2 * (- (1 / 2))) = Inr (0, - 1, 0)
   \<and> piS_of 0 (- 1) = Inl DivisionByZero"
  using C9_zero_radial_speed [of "7 / 10" 1 "1 / 2"]
    C9_zero_radial_speed [of "7 / 10" "- (1 / 2)" "1 / 2"]
  by simp

text \<open>
  The claim as stated includes \<open>G = 1\<close>. There the tangent is the substitute \<open>10\<^sup>1\<^sup>6\<close>, the
  sine is not zero, and the regression fixture \<open>(0.7, 0, 0.5, 0.5)\<close> evaluates to \<open>(0, 0)\<close>.
\<close>

theorem C9_counterexample:
  "fun_short_bearing (7 / 10) 0 (1 / 2) (1 / 2) = Inr (0, 0)"
proof -
  obtain t c s where k: "kappa_1 (7 / 10) (2 * 0) (2 * (1 / 2)) = Inr (t, c, s)"
    and c: "\<bar>c\<bar> < 1" and s: "s \<noteq> 0"
    using kappa_1_singular [of "7 / 10" "2 * 0"] by auto
  have c1: "\<bar>c\<bar> \<le> 1" and c2: "1 + c \<noteq> 0" using c by auto
  have "(0 :: real) \<noteq> 0 \<or> (1 / 2 :: real) \<noteq> 0" by simp
  from fun_short_bearing_squeeze [OF _ _ this k c1 c2 s, of "1 / 2"]
  show ?thesis by (simp add: Let_def)
qed

section \<open>The system matrices\<close>

lemma M_explicit: "M = [[mj, 0, 0, 0], [0, m, 0, 0], [0, 0, mj, 0], [0, 0, 0, m]]"
  by (simp add: M_def diag_def upt_rec [of _ 4] upt_rec [of _ "Suc _"] numeral_eq_Suc)

lemma D_explicit: "D = [[d, - d, 0, 0], [- d, d, 0, 0], [0, 0, d, - d], [0, 0, - d, d]]"
  by (simp add: D_def O_mat_def vstack_def hstack_def scale_mat_def scale_vec_def zeros2_def
      zeros_def numeral_eq_Suc)

lemma C_explicit: "C = [[cs, - cs, 0, 0], [- cs, cs, 0, 0], [0, 0, cs, - cs], [0, 0, - cs, cs]]"
  by (simp add: C_def O_mat_def vstack_def hstack_def scale_mat_def scale_vec_def zeros2_def
      zeros_def numeral_eq_Suc)

lemma length_4: "length x = 4 \<Longrightarrow> \<exists>x1 x2 x3 x4. x = [x1, x2, x3, x4]"
  by (auto simp: eval_nat_numeral length_Suc_conv)

lemma symmetric_M: "symmetric M"
  by (simp add: symmetric_def M_explicit)

lemma symmetric_coupling:
  "symmetric [[k, - k, 0, 0], [- k, k, 0, 0], [0, 0, k, - k], [0, 0, - k, k]]"
  by (simp add: symmetric_def)

lemma pos_semidef_M: "pos_semidef M"
proof -
  have "0 \<le> dot x (matvec M x)" if len: "length x = 4" for x
  proof -
    obtain x1 x2 x3 x4 where x: "x = [x1, x2, x3, x4]" using length_4 [OF len] by blast
    have "dot x (matvec M x) = mj * x1 ^ 2 + m * x2 ^ 2 + mj * x3 ^ 2 + m * x4 ^ 2"
      by (simp add: x M_explicit dot_def matvec_def power2_eq_square algebra_simps)
    also have "0 \<le> \<dots>" by (simp add: mj_def m_def)
    finally show ?thesis .
  qed
  then show ?thesis by (simp add: pos_semidef_def M_explicit)
qed

lemma pos_semidef_coupling:
  assumes "0 \<le> k"
  shows "pos_semidef [[k, - k, 0, 0], [- k, k, 0, 0], [0, 0, k, - k], [0, 0, - k, k]]"
proof -
  let ?X = "[[k, - k, 0, 0], [- k, k, 0, 0], [0, 0, k, - k], [0, 0, - k, k]]"
  have "0 \<le> dot x (matvec ?X x)" if len: "length x = 4" for x
  proof -
    obtain x1 x2 x3 x4 where x: "x = [x1, x2, x3, x4]" using length_4 [OF len] by blast
    have "dot x (matvec ?X x) = k * ((x1 - x2) ^ 2 + (x3 - x4) ^ 2)"
      by (simp add: x dot_def matvec_def power2_eq_square algebra_simps)
    also have "0 \<le> \<dots>" using assms by simp
    finally show ?thesis .
  qed
  then show ?thesis by (simp add: pos_semidef_def)
qed

text \<open>
  Claim C8. The system matrices assembled at setup satisfy the stated invariants: \<open>M\<close> is
  the diagonal matrix of journal mass, rotor mass, journal mass, rotor mass; \<open>D\<close> and \<open>C\<close>
  are the block-diagonal matrices with two copies of the coupling block
  \<open>[[1, - 1], [- 1, 1]]\<close> scaled by \<open>d\<close> and by \<open>cs\<close>; and each of \<open>M\<close>, \<open>D\<close>, \<open>C\<close> is a
  symmetric, positive semi-definite 4 by 4 matrix.
\<close>

theorem C8_system_matrices:
  "M = [[mj, 0, 0, 0], [0, m, 0, 0], [0, 0, mj, 0], [0, 0, 0, m]]
   \<and> D = [[d, - d, 0, 0], [- d, d, 0, 0], [0, 0, d, - d], [0, 0, - d, d]]
   \<and> C = [[cs, - cs, 0, 0], [- cs, cs, 0, 0], [0, 0, cs, - cs], [0, 0, - cs, cs]]
   \<and> symmetric M \<and> symmetric D \<and> symmetric C
   \<and> pos_semidef M \<and> pos_semidef D \<and> pos_semidef C"
proof -
  have "0 \<le> d" by (simp add: d_def cs_def m_def)
  moreover have "0 \<le> cs" by (simp add: cs_def)
  ultimately show ?thesis
    using M_explicit symmetric_M pos_semidef_M
    by (simp only: D_explicit C_explicit symmetric_coupling pos_semidef_coupling)
qed

theorem C8_system_matrices_witness:
  "length [1, 2, 3, 4 :: real] = length M
   \<and> 0 \<le> dot [1, 2, 3, 4] (matvec M [1, 2, 3, 4])
   \<and> 0 \<le> dot [1, 2, 3, 4] (matvec D [1, 2, 3, 4])
   \<and> 0 \<le> dot [1, 2, 3, 4] (matvec C [1, 2, 3, 4])
   \<and> transpose D = D"
proof -
  from C8_system_matrices
  have e: "M = [[mj, 0, 0, 0], [0, m, 0, 0], [0, 0, mj, 0], [0, 0, 0, m]]"
      "D = [[d, - d, 0, 0], [- d, d, 0, 0], [0, 0, d, - d], [0, 0, - d, d]]"
      "C = [[cs, - cs, 0, 0], [- cs, cs, 0, 0], [0, 0, cs, - cs], [0, 0, - cs, cs]]"
    and s: "symmetric D"
    and p: "pos_semidef M" "pos_semidef D" "pos_semidef C"
    by blast+
  have l: "length [1, 2, 3, 4 :: real] = length M" "length [1, 2, 3, 4 :: real] = length D"
      "length [1, 2, 3, 4 :: real] = length C"
    by (simp_all add: e)
  from p(1) l(1) have "0 \<le> dot [1, 2, 3, 4] (matvec M [1, 2, 3, 4])"
    unfolding pos_semidef_def by blast
  moreover from p(2) l(2) have "0 \<le> dot [1, 2, 3, 4] (matvec D [1, 2, 3, 4])"
    unfolding pos_semidef_def by blast
  moreover from p(3) l(3) have "0 \<le> dot [1, 2, 3, 4] (matvec C [1, 2, 3, 4])"
    unfolding pos_semidef_def by blast
  moreover from s have "transpose D = D" by (simp add: symmetric_def)
  ultimately show ?thesis using l(1) by blast
qed

section \<open>The derivative at rest\<close>

lemma dot_zeros [simp]: "dot row (zeros n) = 0"
proof -
  have "sum_list (map2 (*) row (replicate n (0 :: real))) = 0"
  proof (induction row arbitrary: n)
    case Nil
    show ?case by simp
  next
    case (Cons a row)
    show ?case by (cases n) (simp_all add: Cons.IH)
  qed
  then show ?thesis by (simp add: dot_def zeros_def)
qed

lemma matvec_zeros: "matvec X (zeros n) = zeros (length X)"
proof -
  have "map (\<lambda>row. dot row (zeros n)) X = replicate (length X) 0"
    by (induction X) simp_all
  then show ?thesis by (simp add: matvec_def zeros_def [of "length X"])
qed

lemma length_diag [simp]: "length (diag v) = length v"
  by (simp add: diag_def)

lemma length_matmul [simp]: "length (matmul X Y) = length X"
  by (simp add: matmul_def)

lemma length_scale_mat [simp]: "length (scale_mat k X) = length X"
  by (simp add: scale_mat_def)

lemma length_hstack [simp]: "length (hstack X Y) = min (length X) (length Y)"
  by (simp add: hstack_def)

lemma length_M: "length M = 4"
  by (simp add: M_def)

lemma length_Minv: "length Minv = 4"
  by (simp add: Minv_def state_space_def Let_def inv_diag_def length_M)

lemma length_A: "length A = 8"
  by (simp add: A_def state_space_def Let_def inv_diag_def length_M vstack_def zeros2_def
      eye_def)

lemma gvec_explicit: "gvec = [0, 0, 0, 0, 0, 0, g, g]"
  by (simp add: gvec_def scale_vec_def hstack_vec_def zeros_def numeral_eq_Suc)

lemma zeros_4: "zeros 4 = [0, 0, 0, 0]"
  by (simp add: zeros_def numeral_eq_Suc)

lemma rotor_Jeffcott_rest:
  assumes "bearing_journal_short [0, 0, 0, 0] BB DB CB eta (arot * 0) = [0, 0]"
    and "unbalance_const_acc 0 eps_unbalance arot = [0, 0]"
  shows "rotor_Jeffcott bearing_journal_short unbalance_const_acc 0 (zeros 8) =
           [0, 0, 0, 0, 0, 0, - g, - g]"
proof -
  have q: "[zeros 8 ! 0, zeros 8 ! 2, zeros 8 ! 4, zeros 8 ! 6] = [0, 0, 0, 0 :: real]"
    by (simp add: zeros_def)
  have F: "matvec Minv [0, 0, 0, 0] = zeros 4"
    using matvec_zeros [of Minv 4] by (simp add: length_Minv zeros_4)
  have Aq: "matvec A (zeros 8) = zeros 8"
    by (simp add: matvec_zeros length_A)
  show ?thesis
    unfolding rotor_Jeffcott_def Let_def q assms scale_vec_def
    by (simp add: F Aq hstack_vec_def gvec_explicit vec_add_def vec_sub_def)
       (simp add: zeros_def numeral_eq_Suc)
qed

text \<open>
  Claim C7, as amended. At the state \<open>q = 0\<close> and the time \<open>t = 0\<close>, with zero unbalance
  force and zero bearing force, the derivative function returns a vector whose only nonzero
  entries are the constant gravity accelerations \<open>- g\<close> on the two velocity components of
  the vertical direction, that of the journal (index 6, \<open>ydj\<close>) and that of the mass
  (index 7, \<open>ydm\<close>); every other component, including the horizontal accelerations of the
  journal and of the mass, is zero.
\<close>

theorem C7_derivative_at_rest:
  "bearing_journal_short [0, 0, 0, 0] BB DB CB eta (arot * 0) = [0, 0]
   \<and> unbalance_const_acc 0 eps_unbalance arot = [0, 0] \<longrightarrow>
     rotor_Jeffcott bearing_journal_short unbalance_const_acc 0 (zeros 8) =
       [0, 0, 0, 0, 0, 0, - g, - g]
     \<and> g = 9.81"
  using rotor_Jeffcott_rest [of bearing_journal_short unbalance_const_acc]
  by (simp add: g_def)

theorem C7_derivative_at_rest_witness:
  "rotor_Jeffcott (\<lambda>q b1 b2 b3 v w. [0, 0]) (\<lambda>t e a. [0, 0]) 0 (zeros 8) =
     [0, 0, 0, 0, 0, 0, - g, - g]"
  using C7_derivative_at_rest [of "\<lambda>q b1 b2 b3 v w. [0, 0]" "\<lambda>t e a. [0, 0]"]
  by simp

text \<open>
  The claim as stated has \<open>- g\<close> on the mass degrees of freedom and zero on the journal
  accelerations. The vertical acceleration of the journal (index 6) is \<open>- 9.81\<close> and the
  horizontal acceleration of the mass (index 5) is zero.
\<close>

theorem C7_counterexample:
  "rotor_Jeffcott (\<lambda>q b1 b2 b3 v w. [0, 0]) (\<lambda>t e a. [0, 0]) 0 (zeros 8) ! 6 = - 9.81
   \<and> rotor_Jeffcott (\<lambda>q b1 b2 b3 v w. [0, 0]) (\<lambda>t e a. [0, 0]) 0 (zeros 8) ! 5 = 0"
  using rotor_Jeffcott_rest [of "\<lambda>q b1 b2 b3 v w. [0, 0]" "\<lambda>t e a. [0, 0]"]
  by (simp add: g_def)

section \<open>The tangential force near the singular tangential speed\<close>

lemma kappa_1_off_singularity:
  assumes "0 < eps" "0 < E" "G \<noteq> 1"
  shows "\<exists>t c s. kappa_1 eps E G = Inr (t, c, s) \<and> \<bar>c\<bar> < 1 \<and> s < 0 \<and> c * (1 - G) < 0"
proof -
  obtain t c s where k: "kappa_1 eps E G = Inr (t, c, s)"
    and t: "t = E / (eps * (1 - G))" "t \<noteq> 0"
    and c: "c = (if 1 < G then 1 else - 1) / sqrt (1 + t ^ 2)"
    and s: "s = (if 1 < G then 1 else - 1) * t / sqrt (1 + t ^ 2)"
    and a: "\<bar>c\<bar> < 1"
    using kappa_1_squeeze [of eps E G] assms by auto
  have r: "0 < sqrt (1 + t ^ 2)" using one_plus_square_pos [of t] by simp
  show ?thesis
  proof (cases "1 < G")
    case True
    then have "t < 0" using assms t(1) by (simp add: divide_neg_pos mult_pos_neg divide_pos_neg)
    then have "s < 0" using r True s by (simp add: divide_neg_pos)
    moreover have "0 < c" using r True c by simp
    then have "c * (1 - G) < 0" using True by (simp add: mult_pos_neg)
    ultimately show ?thesis using k a by blast
  next
    case False
    then have g: "G < 1" using assms by simp
    then have "0 < t" using assms t(1) by simp
    then have "s < 0" using r False s by (simp add: divide_neg_pos)
    moreover have "c < 0" using r False c by (simp add: divide_neg_pos)
    then have "c * (1 - G) < 0" using g by (simp add: mult_neg_pos)
    ultimately show ?thesis using k a by blast
  qed
qed

lemma kappa_1_at_singularity:
  assumes "0 < E"
  shows "\<exists>t c s. kappa_1 eps E 1 = Inr (t, c, s) \<and> \<bar>c\<bar> < 1 \<and> 0 < s"
proof -
  obtain t c s where k: "kappa_1 eps E 1 = Inr (t, c, s)"
    and t: "t = (if 0 < E then - (10 ^ 16) else 10 ^ 16)"
    and s: "s = - (t / sqrt (1 + t ^ 2))" and a: "\<bar>c\<bar> < 1"
    using kappa_1_singular [of eps E] by auto
  have r: "0 < sqrt (1 + t ^ 2)" using one_plus_square_pos [of t] by simp
  have "t < 0" using assms t by simp
  then have "0 < s" using r s by (simp add: divide_neg_pos)
  then show ?thesis using k a by blast
qed

lemma rational_part:
  fixes eps c s :: real
  assumes "0 < eps" "eps < 1" "\<bar>c\<bar> \<le> 1"
  shows "- eps * s * (1 - (2 - eps ^ 2) * c ^ 2) / (1 - eps ^ 2) / (1 - eps ^ 2 * c ^ 2) ^ 2
       - (- eps * s * (4 - eps ^ 2 * (1 + (2 + eps ^ 2) * c ^ 2)) / (1 - eps ^ 2) ^ 2
            / (1 - eps ^ 2 * c ^ 2) ^ 2)
       = s * (eps * (3 * (1 - c ^ 2) + 5 * c ^ 2 * (1 - eps ^ 2))
               / ((1 - eps ^ 2) ^ 2 * (1 - eps ^ 2 * c ^ 2) ^ 2))"
proof -
  define u where "u = 1 - eps ^ 2"
  define v where "v = 1 - eps ^ 2 * c ^ 2"
  have u: "u \<noteq> 0" using one_minus_square_pos [of eps] assms by (simp add: u_def)
  have v: "v \<noteq> 0" using one_minus_eps_cos_pos [of eps c] assms by (simp add: v_def)
  have e: "eps ^ 2 = 1 - u" by (simp add: u_def)
  have "- eps * s * (1 - (2 - eps ^ 2) * c ^ 2) / u / v ^ 2
       - (- eps * s * (4 - eps ^ 2 * (1 + (2 + eps ^ 2) * c ^ 2)) / u ^ 2 / v ^ 2)
       = s * (eps * (3 * (1 - c ^ 2) + 5 * c ^ 2 * u) / (u ^ 2 * v ^ 2))"
    using u v unfolding e by (simp add: field_simps power2_eq_square)
  then show ?thesis by (simp add: u_def v_def)
qed

lemma arctan_part:
  fixes eps a :: real
  assumes "0 < eps" "eps < 1"
  shows "a / (1 - eps ^ 2) powr (3 / 2) - a * (2 + eps ^ 2) / (1 - eps ^ 2) powr (5 / 2)
       = - (a * ((1 + 2 * eps ^ 2) / (1 - eps ^ 2) powr (5 / 2)))"
proof -
  define u where "u = 1 - eps ^ 2"
  define p where "p = u powr (3 / 2)"
  have u: "0 < u" using one_minus_square_pos [of eps] assms by (simp add: u_def)
  have p: "0 < p" using u by (simp add: p_def)
  have "u powr (5 / 2) = u powr (3 / 2 + 1)" by simp
  also have "\<dots> = p * u" using u by (simp only: powr_add p_def) simp
  finally have q: "u powr (5 / 2) = p * u" .
  have e: "eps ^ 2 = 1 - u" by (simp add: u_def)
  have "a / p - a * (2 + eps ^ 2) / (p * u) = - (a * ((1 + 2 * eps ^ 2) / (p * u)))"
    using u p unfolding e by (simp add: field_simps)
  then show ?thesis by (simp add: u_def [symmetric] p_def [symmetric] q)
qed

lemma fphi_form:
  assumes e: "0 < eps" "eps < 1" and n: "epsS \<noteq> 0 \<or> phiS \<noteq> 0"
    and k: "kappa_1 eps (2 * epsS) (2 * phiS) = Inr (t, c, s)"
    and c: "\<bar>c\<bar> < 1" and s: "s \<noteq> 0"
  shows "\<exists>fr. fun_short_bearing eps epsS phiS B2D = Inr (fr,
      B2D ^ 2 * (2 * eps * c ^ 3 / (1 - eps ^ 2 * c ^ 2) ^ 2 * eps * (1 - 2 * phiS)
        + 2 * epsS *
          (s * (eps * (3 * (1 - c ^ 2) + 5 * c ^ 2 * (1 - eps ^ 2))
                / ((1 - eps ^ 2) ^ 2 * (1 - eps ^ 2 * c ^ 2) ^ 2))
           - ((if s < 0 then pi else 0) + arctan (sqrt (1 - eps ^ 2) / eps / s))
             * ((1 + 2 * eps ^ 2) / (1 - eps ^ 2) powr (5 / 2)))))"
proof -
  have c1: "\<bar>c\<bar> \<le> 1" and c2: "1 + c \<noteq> 0" and c3: "0 < 1 + c" using c by auto
  have g: "s / (1 + c) < 0 \<longleftrightarrow> s < 0" using c3 by (simp add: divide_less_0_iff)
  define a where "a = (if s < 0 then pi else 0) + arctan (sqrt (1 - eps ^ 2) / eps / s)"
  define b1 where "b1 = - eps * s * (1 - (2 - eps ^ 2) * c ^ 2) / (1 - eps ^ 2)
                          / (1 - eps ^ 2 * c ^ 2) ^ 2"
  define b2 where "b2 = - eps * s * (4 - eps ^ 2 * (1 + (2 + eps ^ 2) * c ^ 2))
                          / (1 - eps ^ 2) ^ 2 / (1 - eps ^ 2 * c ^ 2) ^ 2"
  have d: "(b1 + a / (1 - eps ^ 2) powr (3 / 2))
           - (b2 + a * (2 + eps ^ 2) / (1 - eps ^ 2) powr (5 / 2))
         = s * (eps * (3 * (1 - c ^ 2) + 5 * c ^ 2 * (1 - eps ^ 2))
                / ((1 - eps ^ 2) ^ 2 * (1 - eps ^ 2 * c ^ 2) ^ 2))
           - a * ((1 + 2 * eps ^ 2) / (1 - eps ^ 2) powr (5 / 2))"
    using rational_part [OF e c1, of s] arctan_part [OF e, of a]
    unfolding b1_def b2_def by linarith
  from fun_short_bearing_squeeze [OF e n k c1 c2 s, of B2D]
  have "fun_short_bearing eps epsS phiS B2D =
      Inr (B2D ^ 2 * ((b1 + a / (1 - eps ^ 2) powr (3 / 2)) * eps * (1 - 2 * phiS)
             - 2 * epsS * (2 * eps * c ^ 3 / (1 - eps ^ 2 * c ^ 2) ^ 2)),
           B2D ^ 2 * (2 * eps * c ^ 3 / (1 - eps ^ 2 * c ^ 2) ^ 2 * eps * (1 - 2 * phiS)
             + 2 * epsS * ((b1 + a / (1 - eps ^ 2) powr (3 / 2))
                 - (b2 + a * (2 + eps ^ 2) / (1 - eps ^ 2) powr (5 / 2)))))"
    unfolding Let_def g a_def b1_def b2_def by simp
  then have "\<exists>fr. fun_short_bearing eps epsS phiS B2D =
      Inr (fr, B2D ^ 2 * (2 * eps * c ^ 3 / (1 - eps ^ 2 * c ^ 2) ^ 2 * eps * (1 - 2 * phiS)
             + 2 * epsS * (s * (eps * (3 * (1 - c ^ 2) + 5 * c ^ 2 * (1 - eps ^ 2))
                / ((1 - eps ^ 2) ^ 2 * (1 - eps ^ 2 * c ^ 2) ^ 2))
           - a * ((1 + 2 * eps ^ 2) / (1 - eps ^ 2) powr (5 / 2)))))"
    by (simp only: d) blast
  then show ?thesis unfolding a_def .
qed

lemma W_pos:
  fixes eps c :: real
  assumes "0 < eps" "eps < 1" "\<bar>c\<bar> < 1"
  shows "0 < eps * (3 * (1 - c ^ 2) + 5 * c ^ 2 * (1 - eps ^ 2))
               / ((1 - eps ^ 2) ^ 2 * (1 - eps ^ 2 * c ^ 2) ^ 2)"
proof -
  have u: "0 < 1 - eps ^ 2" using one_minus_square_pos [of eps] assms by simp
  have v: "0 < 1 - eps ^ 2 * c ^ 2" using one_minus_eps_cos_pos [of eps c] assms by simp
  have "c ^ 2 < 1" using assms abs_square_less_1 [of c] by simp
  then have "0 < 3 * (1 - c ^ 2)" by simp
  moreover have "0 \<le> 5 * c ^ 2 * (1 - eps ^ 2)" using u by simp
  ultimately have "0 < 3 * (1 - c ^ 2) + 5 * c ^ 2 * (1 - eps ^ 2)" by linarith
  then have "0 < eps * (3 * (1 - c ^ 2) + 5 * c ^ 2 * (1 - eps ^ 2))"
    using assms by simp
  moreover have "0 < (1 - eps ^ 2) ^ 2 * (1 - eps ^ 2 * c ^ 2) ^ 2" using u v by simp
  ultimately show ?thesis by (rule divide_pos_pos)
qed

lemma Q_pos:
  fixes eps :: real
  assumes "0 < eps" "eps < 1"
  shows "0 < (1 + 2 * eps ^ 2) / (1 - eps ^ 2) powr (5 / 2)"
proof -
  have "0 < 1 - eps ^ 2" using one_minus_square_pos [of eps] assms by simp
  then have "0 < (1 - eps ^ 2) powr (5 / 2)" by simp
  moreover have "0 < 1 + 2 * eps ^ 2" by (simp add: add_pos_nonneg)
  ultimately show ?thesis by (rule divide_pos_pos [rotated])
qed

lemma fphi_off_singularity:
  assumes e: "0 < eps" "eps < 1" and p: "0 < epsS" and b: "B2D \<noteq> 0" and g: "phiS \<noteq> 1 / 2"
  shows "\<exists>fr fphi. fun_short_bearing eps epsS phiS B2D = Inr (fr, fphi)
           \<and> fphi < B2D ^ 2 * (2 * epsS
                 * (- (pi / 2) * ((1 + 2 * eps ^ 2) / (1 - eps ^ 2) powr (5 / 2))))"
proof -
  have "0 < 2 * epsS" "2 * phiS \<noteq> 1" using p g by simp_all
  from kappa_1_off_singularity [OF e(1) this]
  obtain t c s where k: "kappa_1 eps (2 * epsS) (2 * phiS) = Inr (t, c, s)"
    and c: "\<bar>c\<bar> < 1" and s: "s < 0" and cg: "c * (1 - 2 * phiS) < 0" by blast
  define W where "W = eps * (3 * (1 - c ^ 2) + 5 * c ^ 2 * (1 - eps ^ 2))
               / ((1 - eps ^ 2) ^ 2 * (1 - eps ^ 2 * c ^ 2) ^ 2)"
  define Q where "Q = (1 + 2 * eps ^ 2) / (1 - eps ^ 2) powr (5 / 2)"
  define a where "a = (if s < 0 then pi else 0) + arctan (sqrt (1 - eps ^ 2) / eps / s)"
  define T where "T = 2 * eps * c ^ 3 / (1 - eps ^ 2 * c ^ 2) ^ 2 * eps * (1 - 2 * phiS)"
  have n: "epsS \<noteq> 0 \<or> phiS \<noteq> 0" and s0: "s \<noteq> 0" using p s by simp_all
  from fphi_form [OF e n k c s0, of B2D]
  obtain fr where f: "fun_short_bearing eps epsS phiS B2D =
      Inr (fr, B2D ^ 2 * (T + 2 * epsS * (s * W - a * Q)))"
    unfolding W_def Q_def a_def T_def by blast
  have W: "0 < W" unfolding W_def by (rule W_pos [OF e c])
  have Q: "0 < Q" unfolding Q_def by (rule Q_pos [OF e])
  have "- (pi / 2) < arctan (sqrt (1 - eps ^ 2) / eps / s)" by (rule arctan_lbound)
  then have a: "pi / 2 < a" using s by (simp add: a_def)
  have "s * W < 0" using s W by (rule mult_neg_pos)
  moreover have "pi / 2 * Q < a * Q" using a Q by simp
  ultimately have "s * W - a * Q < - (pi / 2) * Q" by simp
  then have i: "2 * epsS * (s * W - a * Q) < 2 * epsS * (- (pi / 2) * Q)"
    using \<open>0 < 2 * epsS\<close> by (rule mult_strict_left_mono)
  have T: "T = 2 * eps ^ 2 * c ^ 2 / (1 - eps ^ 2 * c ^ 2) ^ 2 * (c * (1 - 2 * phiS))"
    by (simp add: T_def power2_eq_square power3_eq_cube)
  have "0 \<le> 2 * eps ^ 2 * c ^ 2 / (1 - eps ^ 2 * c ^ 2) ^ 2" by simp
  moreover have "c * (1 - 2 * phiS) \<le> 0" using cg by simp
  ultimately have "T \<le> 0" unfolding T by (rule mult_nonneg_nonpos)
  with i have "T + 2 * epsS * (s * W - a * Q) < 2 * epsS * (- (pi / 2) * Q)" by simp
  moreover have "0 < B2D ^ 2" using b by simp
  ultimately have "B2D ^ 2 * (T + 2 * epsS * (s * W - a * Q))
      < B2D ^ 2 * (2 * epsS * (- (pi / 2) * Q))"
    by (simp only: mult_less_cancel_left_pos)
  with f show ?thesis unfolding Q_def by blast
qed

lemma fphi_at_singularity:
  assumes e: "0 < eps" "eps < 1" and p: "0 < epsS" and b: "B2D \<noteq> 0"
  shows "\<exists>fr fphi. fun_short_bearing eps epsS (1 / 2) B2D = Inr (fr, fphi)
           \<and> B2D ^ 2 * (2 * epsS
                 * (- (pi / 2) * ((1 + 2 * eps ^ 2) / (1 - eps ^ 2) powr (5 / 2)))) < fphi"
proof -
  have "0 < 2 * epsS" using p by simp
  from kappa_1_at_singularity [OF this, of eps]
  obtain t c s where k: "kappa_1 eps (2 * epsS) (2 * (1 / 2)) = Inr (t, c, s)"
    and c: "\<bar>c\<bar> < 1" and s: "0 < s" by auto
  define W where "W = eps * (3 * (1 - c ^ 2) + 5 * c ^ 2 * (1 - eps ^ 2))
               / ((1 - eps ^ 2) ^ 2 * (1 - eps ^ 2 * c ^ 2) ^ 2)"
  define Q where "Q = (1 + 2 * eps ^ 2) / (1 - eps ^ 2) powr (5 / 2)"
  define a where "a = (if s < 0 then pi else 0) + arctan (sqrt (1 - eps ^ 2) / eps / s)"
  define T where "T = 2 * eps * c ^ 3 / (1 - eps ^ 2 * c ^ 2) ^ 2 * eps * (1 - 2 * (1 / 2))"
  have n: "epsS \<noteq> 0 \<or> (1 / 2 :: real) \<noteq> 0" and s0: "s \<noteq> 0" using p s by simp_all
  from fphi_form [OF e n k c s0, of B2D]
  obtain fr where f: "fun_short_bearing eps epsS (1 / 2) B2D =
      Inr (fr, B2D ^ 2 * (T + 2 * epsS * (s * W - a * Q)))"
    unfolding W_def Q_def a_def T_def by blast
  have W: "0 < W" unfolding W_def by (rule W_pos [OF e c])
  have Q: "0 < Q" unfolding Q_def by (rule Q_pos [OF e])
  have "arctan (sqrt (1 - eps ^ 2) / eps / s) < pi / 2" by (rule arctan_ubound)
  then have a: "a < pi / 2" using s by (simp add: a_def)
  have "0 < s * W" using s W by (rule mult_pos_pos)
  moreover have "a * Q < pi / 2 * Q" using a Q by simp
  ultimately have "- (pi / 2) * Q < s * W - a * Q" by simp
  then have i: "2 * epsS * (- (pi / 2) * Q) < 2 * epsS * (s * W - a * Q)"
    using \<open>0 < 2 * epsS\<close> by (rule mult_strict_left_mono)
  have "T = 0" by (simp add: T_def)
  with i have "2 * epsS * (- (pi / 2) * Q) < T + 2 * epsS * (s * W - a * Q)" by simp
  moreover have "0 < B2D ^ 2" using b by simp
  ultimately have "B2D ^ 2 * (2 * epsS * (- (pi / 2) * Q))
      < B2D ^ 2 * (T + 2 * epsS * (s * W - a * Q))"
    by (simp only: mult_less_cancel_left_pos)
  with f show ?thesis unfolding Q_def by blast
qed

text \<open>
  Claim C2 states that the force is continuous in \<open>phiS\<close> at \<open>phiS = 1 / 2\<close>, where
  \<open>G = 2 phiS\<close> crosses 1, and that the cosine and the sine derived from the substitute
  tangent coincide with the one-sided limits. The code does otherwise. For every \<open>eps\<close>
  strictly between 0 and 1, every \<open>epsS > 0\<close> and every \<open>B2D\<close> other than 0, every
  evaluation succeeds; the sine of the auxiliary angle is positive at \<open>G = 1\<close> and negative
  at every other \<open>G\<close>; and the tangential force, as a function of \<open>phiS\<close>, is not
  continuous at \<open>1 / 2\<close>.
\<close>

theorem C2_discontinuity_at_singularity:
  "0 < eps \<and> eps < 1 \<and> 0 < epsS \<and> B2D \<noteq> 0 \<longrightarrow>
     (\<forall>phiS. \<exists>fr fphi. fun_short_bearing eps epsS phiS B2D = Inr (fr, fphi))
     \<and> (\<exists>t c s. kappa_1 eps (2 * epsS) 1 = Inr (t, c, s) \<and> 0 < s)
     \<and> (\<forall>G. G \<noteq> 1 \<longrightarrow> (\<exists>t c s. kappa_1 eps (2 * epsS) G = Inr (t, c, s) \<and> s < 0))
     \<and> \<not> isCont (\<lambda>phiS. snd (projr (fun_short_bearing eps epsS phiS B2D))) (1 / 2)"
proof (intro impI)
  assume a: "0 < eps \<and> eps < 1 \<and> 0 < epsS \<and> B2D \<noteq> 0"
  then have e: "0 < eps" "eps < 1" and p: "0 < epsS" and b: "B2D \<noteq> 0" by simp_all
  have p2: "0 < 2 * epsS" using p by simp
  define f where "f = (\<lambda>phiS. snd (projr (fun_short_bearing eps epsS phiS B2D)))"
  define L where "L = B2D ^ 2 * (2 * epsS
                 * (- (pi / 2) * ((1 + 2 * eps ^ 2) / (1 - eps ^ 2) powr (5 / 2))))"
  have d: "\<forall>phiS. \<exists>fr fphi. fun_short_bearing eps epsS phiS B2D = Inr (fr, fphi)"
    using fun_short_bearing_defined [OF e, of epsS _ B2D] p by simp
  have k1: "\<exists>t c s. kappa_1 eps (2 * epsS) 1 = Inr (t, c, s) \<and> 0 < s"
    using kappa_1_at_singularity [OF p2, of eps] by blast
  have k2: "\<forall>G. G \<noteq> 1 \<longrightarrow> (\<exists>t c s. kappa_1 eps (2 * epsS) G = Inr (t, c, s) \<and> s < 0)"
    using kappa_1_off_singularity [OF e(1) p2] by blast
  have lt: "f x < L" if "x \<noteq> 1 / 2" for x
    using fphi_off_singularity [OF e p b that] unfolding f_def L_def by auto
  have gt: "L < f (1 / 2)"
    using fphi_at_singularity [OF e p b] unfolding f_def L_def by auto
  have "\<not> isCont f (1 / 2)"
  proof
    assume "isCont f (1 / 2)"
    then have t: "(f \<longlongrightarrow> f (1 / 2)) (at (1 / 2))" by (simp add: isCont_def)
    have "eventually (\<lambda>x. f x \<le> L) (at (1 / 2))"
      unfolding eventually_at_filter using lt by (auto intro: always_eventually less_imp_le)
    with t have "f (1 / 2) \<le> L" by (rule tendsto_upperbound) simp
    with gt show False by simp
  qed
  with d k1 k2 show "(\<forall>phiS. \<exists>fr fphi. fun_short_bearing eps epsS phiS B2D = Inr (fr, fphi))
     \<and> (\<exists>t c s. kappa_1 eps (2 * epsS) 1 = Inr (t, c, s) \<and> 0 < s)
     \<and> (\<forall>G. G \<noteq> 1 \<longrightarrow> (\<exists>t c s. kappa_1 eps (2 * epsS) G = Inr (t, c, s) \<and> s < 0))
     \<and> \<not> isCont (\<lambda>phiS. snd (projr (fun_short_bearing eps epsS phiS B2D))) (1 / 2)"
    unfolding f_def by blast
qed

theorem C2_discontinuity_at_singularity_witness:
  "(0 < (7 / 10 :: real) \<and> (7 / 10 :: real) < 1 \<and> (0 :: real) < 1 \<and> (1 / 2 :: real) \<noteq> 0)
   \<and> \<not> isCont (\<lambda>phiS. snd (projr (fun_short_bearing (7 / 10) 1 phiS (1 / 2)))) (1 / 2)
   \<and> (\<exists>fr fphi. fun_short_bearing (7 / 10) 1 (1 / 2) (1 / 2) = Inr (fr, fphi))"
  using C2_discontinuity_at_singularity [of "7 / 10" 1 "1 / 2"] by simp

section \<open>Symmetries of the force law\<close>

lemma kappa_1_off_singularity_neg:
  assumes "0 < eps" "E < 0" "G \<noteq> 1"
  shows "\<exists>t c s. kappa_1 eps E G = Inr (t, c, s) \<and> \<bar>c\<bar> < 1 \<and> 0 < s \<and> c * (1 - G) < 0"
proof -
  obtain t c s where k: "kappa_1 eps E G = Inr (t, c, s)"
    and t: "t = E / (eps * (1 - G))" "t \<noteq> 0"
    and c: "c = (if 1 < G then 1 else - 1) / sqrt (1 + t ^ 2)"
    and s: "s = (if 1 < G then 1 else - 1) * t / sqrt (1 + t ^ 2)"
    and a: "\<bar>c\<bar> < 1"
    using kappa_1_squeeze [of eps E G] assms by auto
  have r: "0 < sqrt (1 + t ^ 2)" using one_plus_square_pos [of t] by simp
  show ?thesis
  proof (cases "1 < G")
    case True
    then have "0 < t" using assms t(1) by (simp add: divide_neg_neg mult_pos_neg)
    then have "0 < s" using r True s by simp
    moreover have "0 < c" using r True c by simp
    then have "c * (1 - G) < 0" using True by (simp add: mult_pos_neg)
    ultimately show ?thesis using k a by blast
  next
    case False
    then have g: "G < 1" using assms by simp
    then have "t < 0" using assms t(1) by (simp add: divide_neg_pos)
    then have "0 < s" using r False s by (simp add: divide_neg_pos)
    moreover have "c < 0" using r False c by (simp add: divide_neg_pos)
    then have "c * (1 - G) < 0" using g by (simp add: mult_neg_pos)
    ultimately show ?thesis using k a by blast
  qed
qed

lemma fphi_negative_radial_speed:
  assumes e: "0 < eps" "eps < 1" and p: "epsS < 0" and b: "B2D \<noteq> 0" and g: "phiS \<noteq> 1 / 2"
  shows "\<exists>fr fphi. fun_short_bearing eps epsS phiS B2D = Inr (fr, fphi)
           \<and> fphi < B2D ^ 2 * (2 * (- epsS)
                 * (pi / 2 * ((1 + 2 * eps ^ 2) / (1 - eps ^ 2) powr (5 / 2))))"
proof -
  have p2: "2 * epsS < 0" and g2: "2 * phiS \<noteq> 1" using p g by simp_all
  from kappa_1_off_singularity_neg [OF e(1) this]
  obtain t c s where k: "kappa_1 eps (2 * epsS) (2 * phiS) = Inr (t, c, s)"
    and c: "\<bar>c\<bar> < 1" and s: "0 < s" and cg: "c * (1 - 2 * phiS) < 0" by blast
  define W where "W = eps * (3 * (1 - c ^ 2) + 5 * c ^ 2 * (1 - eps ^ 2))
               / ((1 - eps ^ 2) ^ 2 * (1 - eps ^ 2 * c ^ 2) ^ 2)"
  define Q where "Q = (1 + 2 * eps ^ 2) / (1 - eps ^ 2) powr (5 / 2)"
  define a where "a = (if s < 0 then pi else 0) + arctan (sqrt (1 - eps ^ 2) / eps / s)"
  define T where "T = 2 * eps * c ^ 3 / (1 - eps ^ 2 * c ^ 2) ^ 2 * eps * (1 - 2 * phiS)"
  have n: "epsS \<noteq> 0 \<or> phiS \<noteq> 0" and s0: "s \<noteq> 0" using p s by simp_all
  from fphi_form [OF e n k c s0, of B2D]
  obtain fr where f: "fun_short_bearing eps epsS phiS B2D =
      Inr (fr, B2D ^ 2 * (T + 2 * epsS * (s * W - a * Q)))"
    unfolding W_def Q_def a_def T_def by blast
  have W: "0 < W" unfolding W_def by (rule W_pos [OF e c])
  have Q: "0 < Q" unfolding Q_def by (rule Q_pos [OF e])
  have "arctan (sqrt (1 - eps ^ 2) / eps / s) < pi / 2" by (rule arctan_ubound)
  then have a: "a < pi / 2" using s by (simp add: a_def)
  have "0 < s * W" using s W by (rule mult_pos_pos)
  moreover have "a * Q < pi / 2 * Q" using a Q by simp
  ultimately have "- (pi / 2 * Q) < s * W - a * Q" by simp
  then have "2 * epsS * (s * W - a * Q) < 2 * epsS * (- (pi / 2 * Q))"
    using p2 by (rule mult_strict_left_mono_neg)
  then have i: "2 * epsS * (s * W - a * Q) < 2 * (- epsS) * (pi / 2 * Q)" by simp
  have T: "T = 2 * eps ^ 2 * c ^ 2 / (1 - eps ^ 2 * c ^ 2) ^ 2 * (c * (1 - 2 * phiS))"
    by (simp add: T_def power2_eq_square power3_eq_cube)
  have "0 \<le> 2 * eps ^ 2 * c ^ 2 / (1 - eps ^ 2 * c ^ 2) ^ 2" by simp
  moreover have "c * (1 - 2 * phiS) \<le> 0" using cg by simp
  ultimately have "T \<le> 0" unfolding T by (rule mult_nonneg_nonpos)
  with i have "T + 2 * epsS * (s * W - a * Q) < 2 * (- epsS) * (pi / 2 * Q)" by simp
  moreover have "0 < B2D ^ 2" using b by simp
  ultimately have "B2D ^ 2 * (T + 2 * epsS * (s * W - a * Q))
      < B2D ^ 2 * (2 * (- epsS) * (pi / 2 * Q))"
    by (simp only: mult_less_cancel_left_pos)
  with f show ?thesis unfolding Q_def by blast
qed

lemma negation_does_not_flip_fphi:
  assumes e: "0 < eps" "eps < 1" and p: "0 < epsS" and b: "B2D \<noteq> 0"
    and g: "phiS \<noteq> 1 / 2" "phiS \<noteq> - (1 / 2)"
  shows "\<not> isl (fun_short_bearing eps epsS phiS B2D)
       \<and> \<not> isl (fun_short_bearing eps (- epsS) (- phiS) B2D)
       \<and> snd (projr (fun_short_bearing eps (- epsS) (- phiS) B2D))
           < - snd (projr (fun_short_bearing eps epsS phiS B2D))"
proof -
  define L where "L = B2D ^ 2 * (2 * epsS
                 * (pi / 2 * ((1 + 2 * eps ^ 2) / (1 - eps ^ 2) powr (5 / 2))))"
  obtain fr fphi where f: "fun_short_bearing eps epsS phiS B2D = Inr (fr, fphi)"
    and l: "fphi < - L"
    using fphi_off_singularity [OF e p b g(1)] unfolding L_def by auto
  have "- epsS < 0" "- phiS \<noteq> 1 / 2" using p g(2) by auto
  from fphi_negative_radial_speed [OF e this(1) b this(2)]
  obtain fr' fphi' where f': "fun_short_bearing eps (- epsS) (- phiS) B2D = Inr (fr', fphi')"
    and l': "fphi' < L"
    unfolding L_def by auto
  from l l' have "fphi' < - fphi" by simp
  with f f' show ?thesis by simp
qed

lemma pure_rotation_signs:
  assumes "0 < eps" "eps < 1"
  shows "\<exists>fr fphi. fun_short_bearing eps 0 0 B2D = Inr (fr, fphi) \<and> 0 < fr \<and> fphi < 0"
proof -
  have u: "0 < 1 - eps ^ 2" using one_minus_square_pos [of eps] assms by simp
  then have p: "0 < (1 - eps ^ 2) powr (3 / 2)" by simp
  have v: "fun_short_bearing eps 0 0 B2D =
      Inr (2 * eps ^ 2 / (1 - eps ^ 2) ^ 2, - (1 / 2) * pi * eps / (1 - eps ^ 2) powr (3 / 2))"
    using u p by (simp add: fun_short_bearing_def)
  have "0 < 2 * eps ^ 2 / (1 - eps ^ 2) ^ 2" using assms u by simp
  moreover have "0 < (1 / 2) * pi * eps" using assms by simp
  then have "0 < (1 / 2) * pi * eps / (1 - eps ^ 2) powr (3 / 2)"
    using p by (rule divide_pos_pos)
  then have "- (1 / 2) * pi * eps / (1 - eps ^ 2) powr (3 / 2) < 0" by simp
  ultimately show ?thesis using v by blast
qed

lemma squeeze_depends_on_B2D:
  assumes e: "0 < eps" "eps < 1" and p: "0 < epsS" and g: "phiS \<noteq> 1 / 2" and b: "b \<noteq> 0"
  shows "\<exists>fr fphi. fun_short_bearing eps epsS phiS b = Inr (fr, fphi) \<and> fphi < 0"
proof -
  obtain fr fphi where f: "fun_short_bearing eps epsS phiS b = Inr (fr, fphi)"
    and l: "fphi < b ^ 2 * (2 * epsS
                 * (- (pi / 2) * ((1 + 2 * eps ^ 2) / (1 - eps ^ 2) powr (5 / 2))))"
    using fphi_off_singularity [OF e p b g] by blast
  have "0 < (1 + 2 * eps ^ 2) / (1 - eps ^ 2) powr (5 / 2)" by (rule Q_pos [OF e])
  moreover have "0 < pi / 2" by simp
  ultimately have "0 < pi / 2 * ((1 + 2 * eps ^ 2) / (1 - eps ^ 2) powr (5 / 2))"
    by (rule mult_pos_pos [rotated])
  moreover have "0 < 2 * epsS" using p by simp
  ultimately have "0 < 2 * epsS * (pi / 2 * ((1 + 2 * eps ^ 2) / (1 - eps ^ 2) powr (5 / 2)))"
    by (rule mult_pos_pos [rotated])
  moreover have "0 < b ^ 2" using b by simp
  ultimately have "0 < b ^ 2 * (2 * epsS
      * (pi / 2 * ((1 + 2 * eps ^ 2) / (1 - eps ^ 2) powr (5 / 2))))"
    by (rule mult_pos_pos [rotated])
  then have "b ^ 2 * (2 * epsS
      * (- (pi / 2) * ((1 + 2 * eps ^ 2) / (1 - eps ^ 2) powr (5 / 2)))) < 0" by simp
  with l have "fphi < 0" by simp
  with f show ?thesis by blast
qed

lemma B2D_scaling:
  assumes "\<not> (epsS = 0 \<and> phiS = 0)"
  shows "fun_short_bearing eps epsS phiS (k * b) =
          map_sum id (\<lambda>(fr, fphi). (k ^ 2 * fr, k ^ 2 * fphi))
            (fun_short_bearing eps epsS phiS b)"
proof -
  have n: "\<not> (2 * epsS = 0 \<and> 2 * phiS = 0)" using assms by simp
  show ?thesis
    unfolding fun_short_bearing_def Let_def
    by (simp only: n if_False)
       (auto simp: and_then_def power_mult_distrib algebra_simps split: sum.splits)
qed

lemma kappa_1_zero_tangential:
  assumes "eps \<noteq> 0"
  shows "kappa_1 eps E 0 =
     Inr (E / eps, - (1 / sqrt (1 + (E / eps) ^ 2)), - (E / eps / sqrt (1 + (E / eps) ^ 2)))"
  using assms by (simp add: kappa_1_neg)

lemma radial_force_under_negation:
  assumes e: "0 < eps" "eps < 1" and p: "0 < epsS" and b: "B2D \<noteq> 0"
    and h: "1 - eps ^ 2 \<le> (2 * epsS / eps) ^ 2"
  shows "\<exists>fr fphi fr' fphi'. fun_short_bearing eps epsS 0 B2D = Inr (fr, fphi)
           \<and> fun_short_bearing eps (- epsS) 0 B2D = Inr (fr', fphi') \<and> fr' < fr"
proof -
  define t where "t = 2 * epsS / eps"
  define r where "r = sqrt (1 + t ^ 2)"
  define c where "c = - (1 / r)"
  define s where "s = - (t / r)"
  have t: "0 < t" using e p by (simp add: t_def)
  have r: "1 < r" using t sqrt_one_plus_square_gt_1 [of t] by (simp add: r_def)
  have r2: "r ^ 2 = 1 + t ^ 2" using one_plus_square_pos [of t] by (simp add: r_def)
  have c: "c < 0" "\<bar>c\<bar> < 1" using r by (simp_all add: c_def)
  have s: "s < 0" using t r by (simp add: s_def)
  have c2: "c ^ 2 = 1 / (1 + t ^ 2)" by (simp add: c_def power_divide r2)
  have k: "kappa_1 eps (2 * epsS) (2 * 0) = Inr (t, c, s)"
    using e kappa_1_zero_tangential [of eps "2 * epsS"]
    by (simp add: t_def r_def c_def s_def)
  have "2 * (- epsS) / eps = - t" by (simp add: t_def)
  then have k': "kappa_1 eps (2 * (- epsS)) (2 * 0) = Inr (- t, c, - s)"
    using e kappa_1_zero_tangential [of eps "2 * (- epsS)"]
    by (simp add: r_def c_def s_def)
  have c1: "\<bar>c\<bar> \<le> 1" "1 + c \<noteq> 0" and c3: "0 < 1 + c" using c by auto
  have g1: "s / (1 + c) < 0" using s c3 by (simp add: divide_neg_pos)
  have "- s / (1 + c) = - (s / (1 + c))" by simp
  then have g2: "\<not> - s / (1 + c) < 0" using g1 by linarith
  define u where "u = 1 - eps ^ 2"
  define v where "v = 1 - eps ^ 2 * c ^ 2"
  define P where "P = u powr (3 / 2)"
  define K where "K = 1 - (2 - eps ^ 2) * c ^ 2"
  define x where "x = sqrt u / eps / s"
  define i1 where "i1 = 2 * eps * c ^ 3 / v ^ 2"
  define R where "R = - eps * s * K / u / v ^ 2"
  define i3 where "i3 = - eps * s * (4 - eps ^ 2 * (1 + (2 + eps ^ 2) * c ^ 2)) / u ^ 2 / v ^ 2
      + (pi + arctan x) * (2 + eps ^ 2) / u powr (5 / 2)"
  define i3' where "i3' = - eps * (- s) * (4 - eps ^ 2 * (1 + (2 + eps ^ 2) * c ^ 2)) / u ^ 2 / v ^ 2
      + (0 + arctan (sqrt u / eps / (- s))) * (2 + eps ^ 2) / u powr (5 / 2)"
  have u: "0 < u" using one_minus_square_pos [of eps] e by (simp add: u_def)
  have v: "0 < v" using one_minus_eps_cos_pos [of eps c] e c1 by (simp add: v_def)
  have P: "0 < P" using u by (simp add: P_def)
  have n: "epsS \<noteq> 0 \<or> (0 :: real) \<noteq> 0" "- epsS \<noteq> 0 \<or> (0 :: real) \<noteq> 0" using p by simp_all
  have s0: "s \<noteq> 0" "- s \<noteq> 0" using s by simp_all
  have f: "fun_short_bearing eps epsS 0 B2D =
      Inr (B2D ^ 2 * ((R + (pi + arctan x) / P) * eps * (1 - 2 * 0) - 2 * epsS * i1),
           B2D ^ 2 * (i1 * eps * (1 - 2 * 0) + 2 * epsS * ((R + (pi + arctan x) / P) - i3)))"
    using fun_short_bearing_squeeze [OF e n(1) k c1 s0(1), of B2D] g1
    unfolding Let_def R_def K_def i1_def i3_def x_def u_def v_def P_def by simp
  have x': "sqrt u / eps / (- s) = - x" by (simp add: x_def)
  have f': "fun_short_bearing eps (- epsS) 0 B2D =
      Inr (B2D ^ 2 * ((- R + (0 + arctan (- x)) / P) * eps * (1 - 2 * 0) - 2 * (- epsS) * i1),
           B2D ^ 2 * (i1 * eps * (1 - 2 * 0)
             + 2 * (- epsS) * ((- R + (0 + arctan (- x)) / P) - i3')))"
    using fun_short_bearing_squeeze [OF e n(2) k' c1 s0(2), of B2D] g2
    unfolding Let_def R_def K_def i1_def i3'_def x_def u_def v_def P_def by simp
  have "(2 - eps ^ 2) * c ^ 2 \<le> 1"
  proof -
    have "2 - eps ^ 2 \<le> 1 + t ^ 2" using h by (simp add: t_def)
    moreover have "0 < 1 + t ^ 2" by (rule one_plus_square_pos)
    ultimately have "(2 - eps ^ 2) / (1 + t ^ 2) \<le> 1" by simp
    then show ?thesis by (simp add: c2)
  qed
  then have K: "0 \<le> K" by (simp add: K_def)
  have "0 \<le> - eps * s" using e s by (simp add: mult_nonneg_nonpos2 mult_le_0_iff)
  then have "0 \<le> - eps * s * K" using K by (rule mult_nonneg_nonneg)
  then have "0 \<le> - eps * s * K / u" using u by (rule divide_nonneg_pos)
  moreover have "0 < v ^ 2" using v by simp
  ultimately have R: "0 \<le> R" unfolding R_def by (rule divide_nonneg_pos)
  have "- (pi / 2) < arctan x" by (rule arctan_lbound)
  then have "0 < pi + 2 * arctan x" by simp
  then have A: "0 < (pi + 2 * arctan x) / P" using P by (rule divide_pos_pos)
  have "c ^ 3 < 0" using c(1) by (simp add: power3_eq_cube mult_neg_neg mult_pos_neg)
  then have "2 * eps * c ^ 3 < 0" using e by (simp add: mult_pos_neg)
  moreover have "0 < v ^ 2" using v by simp
  ultimately have i1: "i1 < 0" unfolding i1_def by (rule divide_neg_pos)
  have d: "((R + (pi + arctan x) / P) * eps * (1 - 2 * 0) - 2 * epsS * i1)
         - ((- R + (0 + arctan (- x)) / P) * eps * (1 - 2 * 0) - 2 * (- epsS) * i1)
         = eps * (2 * R + (pi + 2 * arctan x) / P) + 4 * epsS * (- i1)"
    by (simp add: arctan_minus algebra_simps add_divide_distrib diff_divide_distrib)
  have "0 < 2 * R + (pi + 2 * arctan x) / P" using R A by simp
  with e(1) have "0 < eps * (2 * R + (pi + 2 * arctan x) / P)" by (rule mult_pos_pos)
  moreover have "0 < 4 * epsS" "0 < - i1" using p i1 by simp_all
  then have "0 < 4 * epsS * (- i1)" by (rule mult_pos_pos)
  ultimately have "(- R + (0 + arctan (- x)) / P) * eps * (1 - 2 * 0) - 2 * (- epsS) * i1
      < (R + (pi + arctan x) / P) * eps * (1 - 2 * 0) - 2 * epsS * i1"
    using d by linarith
  moreover have "0 < B2D ^ 2" using b by simp
  ultimately have "B2D ^ 2 * ((- R + (0 + arctan (- x)) / P) * eps * (1 - 2 * 0) - 2 * (- epsS) * i1)
      < B2D ^ 2 * ((R + (pi + arctan x) / P) * eps * (1 - 2 * 0) - 2 * epsS * i1)"
    by (simp only: mult_less_cancel_left_pos)
  with f f' show ?thesis by blast
qed

lemma tangential_forces_do_not_cancel:
  assumes e: "0 < eps" "eps < 1" and p: "epsS \<noteq> 0" and b: "B2D \<noteq> 0"
    and g: "phiS \<noteq> 1 / 2" "phiS \<noteq> - (1 / 2)"
  shows "\<exists>fr fphi fr' fphi'. fun_short_bearing eps epsS phiS B2D = Inr (fr, fphi)
           \<and> fun_short_bearing eps (- epsS) (- phiS) B2D = Inr (fr', fphi')
           \<and> fphi + fphi' < 0"
proof -
  have r: "\<exists>fr fphi fr' fphi'. fun_short_bearing eps x y B2D = Inr (fr, fphi)
           \<and> fun_short_bearing eps (- x) (- y) B2D = Inr (fr', fphi')
           \<and> fphi + fphi' < 0"
    if x: "0 < x" and y: "y \<noteq> 1 / 2" "y \<noteq> - (1 / 2)" for x y
  proof -
    obtain fr fphi where f: "fun_short_bearing eps x y B2D = Inr (fr, fphi)"
      and l: "fphi < B2D ^ 2 * (2 * x
                 * (- (pi / 2) * ((1 + 2 * eps ^ 2) / (1 - eps ^ 2) powr (5 / 2))))"
      using fphi_off_singularity [OF e x b y(1)] by blast
    have "- x < 0" "- y \<noteq> 1 / 2" using x y(2) by auto
    from fphi_negative_radial_speed [OF e this(1) b this(2)]
    obtain fr' fphi' where f': "fun_short_bearing eps (- x) (- y) B2D = Inr (fr', fphi')"
      and l': "fphi' < B2D ^ 2 * (2 * (- (- x))
                 * (pi / 2 * ((1 + 2 * eps ^ 2) / (1 - eps ^ 2) powr (5 / 2))))"
      by blast
    from l l' have "fphi + fphi' < 0" by simp
    with f f' show ?thesis by blast
  qed
  show ?thesis
  proof (cases "0 < epsS")
    case True
    then show ?thesis using r [of epsS phiS] g by blast
  next
    case False
    then have "0 < - epsS" using p by simp
    moreover have "- phiS \<noteq> 1 / 2" "- phiS \<noteq> - (1 / 2)" using g by auto
    ultimately obtain fr fphi fr' fphi'
      where "fun_short_bearing eps (- epsS) (- phiS) B2D = Inr (fr, fphi)"
        and "fun_short_bearing eps (- (- epsS)) (- (- phiS)) B2D = Inr (fr', fphi')"
        and "fphi + fphi' < 0"
      using r [of "- epsS" "- phiS"] by blast
    then have "fun_short_bearing eps epsS phiS B2D = Inr (fr', fphi')"
      "fun_short_bearing eps (- epsS) (- phiS) B2D = Inr (fr, fphi)" "fphi' + fphi < 0"
      by simp_all
    then show ?thesis by blast
  qed
qed

text \<open>
  With \<open>eps = 0\<close> the auxiliary angle either fails (for \<open>G \<noteq> 1\<close>, in the division by
  \<open>eps (1 - G)\<close>) or has a nonzero sine (for \<open>G = 1\<close>): a zero sine never occurs together
  with \<open>eps = 0\<close>.
\<close>

lemma sine_nonzero_at_eps_zero: "kappa_1 0 E G = Inr (t, c, s) \<Longrightarrow> s \<noteq> 0"
proof (cases "G = 1")
  case True
  assume "kappa_1 0 E G = Inr (t, c, s)"
  then show ?thesis using True kappa_1_singular [of 0 E] by auto
next
  case False
  assume k: "kappa_1 0 E G = Inr (t, c, s)"
  have "kappa_1 0 E G = Inl DivisionByZero"
  proof (cases "1 < G")
    case True
    then show ?thesis by (simp add: kappa_1_pos)
  next
    case g: False
    with False have "G < 1" by simp
    then show ?thesis by (simp add: kappa_1_neg)
  qed
  with k show ?thesis by simp
qed

text \<open>
  Claim C3, as amended. Negating both speed inputs neither leaves the radial force
  unchanged nor flips the tangential force. For every \<open>eps\<close> strictly between 0 and 1,
  every \<open>B2D \<noteq> 0\<close> and every \<open>(epsS, phiS)\<close> that is \<open>(0, 0)\<close> or has \<open>epsS \<noteq> 0\<close> and
  \<open>phiS\<close> other than \<open>1 / 2\<close> and \<open>- 1 / 2\<close>, the evaluations at \<open>(epsS, phiS)\<close> and at
  \<open>(- epsS, - phiS)\<close> both succeed, and their tangential forces \<open>fphi\<close> and \<open>fphi'\<close> have a
  negative sum, so that \<open>fphi'\<close> is not \<open>- fphi\<close>. At zero tangential speed, for \<open>epsS > 0\<close>
  with \<open>(2 epsS / eps)\<^sup>2 \<ge> 1 - eps\<^sup>2\<close>, the radial force at the negated speeds is strictly
  smaller than the radial force at the given speeds.
\<close>

theorem C3_negation_of_speeds:
  "0 < eps \<and> eps < 1 \<and> B2D \<noteq> 0 \<longrightarrow>
     ((epsS = 0 \<and> phiS = 0) \<or> (epsS \<noteq> 0 \<and> phiS \<noteq> 1 / 2 \<and> phiS \<noteq> - (1 / 2)) \<longrightarrow>
        (\<exists>fr fphi fr' fphi'. fun_short_bearing eps epsS phiS B2D = Inr (fr, fphi)
           \<and> fun_short_bearing eps (- epsS) (- phiS) B2D = Inr (fr', fphi')
           \<and> fphi + fphi' < 0 \<and> fphi' \<noteq> - fphi))
     \<and> (0 < epsS \<and> 1 - eps ^ 2 \<le> (2 * epsS / eps) ^ 2 \<longrightarrow>
        (\<exists>fr fphi fr' fphi'. fun_short_bearing eps epsS 0 B2D = Inr (fr, fphi)
           \<and> fun_short_bearing eps (- epsS) (- 0) B2D = Inr (fr', fphi')
           \<and> fr' < fr))"
proof (intro impI conjI)
  assume a: "0 < eps \<and> eps < 1 \<and> B2D \<noteq> 0"
  assume c: "(epsS = 0 \<and> phiS = 0) \<or> (epsS \<noteq> 0 \<and> phiS \<noteq> 1 / 2 \<and> phiS \<noteq> - (1 / 2))"
  have "\<exists>fr fphi fr' fphi'. fun_short_bearing eps epsS phiS B2D = Inr (fr, fphi)
           \<and> fun_short_bearing eps (- epsS) (- phiS) B2D = Inr (fr', fphi')
           \<and> fphi + fphi' < 0"
  proof (cases "epsS = 0 \<and> phiS = 0")
    case True
    obtain fr fphi where f: "fun_short_bearing eps 0 0 B2D = Inr (fr, fphi)" and s: "fphi < 0"
      using pure_rotation_signs [of eps B2D] a by blast
    from s have "fphi + fphi < 0" by simp
    with f True show ?thesis by auto
  next
    case False
    with c have "epsS \<noteq> 0" "phiS \<noteq> 1 / 2" "phiS \<noteq> - (1 / 2)" by auto
    then show ?thesis using tangential_forces_do_not_cancel [of eps epsS B2D phiS] a by blast
  qed
  then obtain fr fphi fr' fphi' where "fun_short_bearing eps epsS phiS B2D = Inr (fr, fphi)"
    "fun_short_bearing eps (- epsS) (- phiS) B2D = Inr (fr', fphi')" "fphi + fphi' < 0"
    by blast
  moreover from this(3) have "fphi' \<noteq> - fphi" by simp
  ultimately show "\<exists>fr fphi fr' fphi'. fun_short_bearing eps epsS phiS B2D = Inr (fr, fphi)
           \<and> fun_short_bearing eps (- epsS) (- phiS) B2D = Inr (fr', fphi')
           \<and> fphi + fphi' < 0 \<and> fphi' \<noteq> - fphi"
    by blast
next
  assume a: "0 < eps \<and> eps < 1 \<and> B2D \<noteq> 0"
  assume c: "0 < epsS \<and> 1 - eps ^ 2 \<le> (2 * epsS / eps) ^ 2"
  show "\<exists>fr fphi fr' fphi'. fun_short_bearing eps epsS 0 B2D = Inr (fr, fphi)
           \<and> fun_short_bearing eps (- epsS) (- 0) B2D = Inr (fr', fphi')
           \<and> fr' < fr"
    using radial_force_under_negation [of eps epsS B2D] a c by simp
qed

theorem C3_negation_of_speeds_witness:
  "(0 < (7 / 10 :: real) \<and> (7 / 10 :: real) < 1 \<and> (1 / 2 :: real) \<noteq> 0)
   \<and> (\<exists>fr fphi fr' fphi'. fun_short_bearing (7 / 10) 1 1 (1 / 2) = Inr (fr, fphi)
           \<and> fun_short_bearing (7 / 10) (- 1) (- 1) (1 / 2) = Inr (fr', fphi')
           \<and> fphi + fphi' < 0 \<and> fphi' \<noteq> - fphi)
   \<and> (\<exists>fr fphi fr' fphi'. fun_short_bearing (7 / 10) 0 0 (1 / 2) = Inr (fr, fphi)
           \<and> fun_short_bearing (7 / 10) (- 0) (- 0) (1 / 2) = Inr (fr', fphi')
           \<and> fphi + fphi' < 0 \<and> fphi' \<noteq> - fphi)
   \<and> (\<exists>fr fphi fr' fphi'. fun_short_bearing (7 / 10) 1 0 (1 / 2) = Inr (fr, fphi)
           \<and> fun_short_bearing (7 / 10) (- 1) (- 0) (1 / 2) = Inr (fr', fphi')
           \<and> fr' < fr)"
proof -
  have h: "0 < (7 / 10 :: real) \<and> (7 / 10 :: real) < 1 \<and> (1 / 2 :: real) \<noteq> 0" by simp
  have h1: "((1 :: real) = 0 \<and> (1 :: real) = 0)
      \<or> ((1 :: real) \<noteq> 0 \<and> (1 :: real) \<noteq> 1 / 2 \<and> (1 :: real) \<noteq> - (1 / 2))" by simp
  have h2: "((0 :: real) = 0 \<and> (0 :: real) = 0)
      \<or> ((0 :: real) \<noteq> 0 \<and> (0 :: real) \<noteq> 1 / 2 \<and> (0 :: real) \<noteq> - (1 / 2))" by simp
  have h3: "0 < (1 :: real) \<and> 1 - (7 / 10 :: real) ^ 2 \<le> (2 * 1 / (7 / 10)) ^ 2"
    by (simp add: power2_eq_square)
  from C3_negation_of_speeds [of "7 / 10" "1 / 2" 1 1] h h1
  have w1: "\<exists>fr fphi fr' fphi'. fun_short_bearing (7 / 10) 1 1 (1 / 2) = Inr (fr, fphi)
           \<and> fun_short_bearing (7 / 10) (- 1) (- 1) (1 / 2) = Inr (fr', fphi')
           \<and> fphi + fphi' < 0 \<and> fphi' \<noteq> - fphi" by blast
  from C3_negation_of_speeds [of "7 / 10" "1 / 2" 0 0] h h2
  have w2: "\<exists>fr fphi fr' fphi'. fun_short_bearing (7 / 10) 0 0 (1 / 2) = Inr (fr, fphi)
           \<and> fun_short_bearing (7 / 10) (- 0) (- 0) (1 / 2) = Inr (fr', fphi')
           \<and> fphi + fphi' < 0 \<and> fphi' \<noteq> - fphi" by blast
  from C3_negation_of_speeds [of "7 / 10" "1 / 2" 1 0] h h3
  have w3: "\<exists>fr fphi fr' fphi'. fun_short_bearing (7 / 10) 1 0 (1 / 2) = Inr (fr, fphi)
           \<and> fun_short_bearing (7 / 10) (- 1) (- 0) (1 / 2) = Inr (fr', fphi')
           \<and> fr' < fr" by blast
  from h w1 w2 w3 show ?thesis by blast
qed

text \<open>
  Claim C3 states that negating both speed inputs leaves the radial force unchanged and
  flips the tangential force. At \<open>(eps, epsS, phiS, B2D) = (0.7, 1, 0, 0.5)\<close> both
  evaluations succeed, the radial force at the negated speeds is strictly below the radial
  force at the given speeds, and the tangential force at the negated speeds is strictly
  below the negative of the tangential force at the given speeds.
\<close>

theorem C3_counterexample:
  "\<not> isl (fun_short_bearing (7 / 10) 1 0 (1 / 2))
   \<and> \<not> isl (fun_short_bearing (7 / 10) (- 1) (- 0) (1 / 2))
   \<and> fst (projr (fun_short_bearing (7 / 10) (- 1) (- 0) (1 / 2)))
       < fst (projr (fun_short_bearing (7 / 10) 1 0 (1 / 2)))
   \<and> snd (projr (fun_short_bearing (7 / 10) (- 1) (- 0) (1 / 2)))
       < - snd (projr (fun_short_bearing (7 / 10) 1 0 (1 / 2)))"
proof -
  have h: "1 - (7 / 10 :: real) ^ 2 \<le> (2 * 1 / (7 / 10)) ^ 2" by (simp add: power2_eq_square)
  obtain fr fphi fr' fphi' where f: "fun_short_bearing (7 / 10) 1 0 (1 / 2) = Inr (fr, fphi)"
    and f': "fun_short_bearing (7 / 10) (- 1) 0 (1 / 2) = Inr (fr', fphi')" and r: "fr' < fr"
    using radial_force_under_negation [of "7 / 10" 1 "1 / 2"] h by auto
  have "snd (projr (fun_short_bearing (7 / 10) (- 1) (- 0) (1 / 2)))
       < - snd (projr (fun_short_bearing (7 / 10) 1 0 (1 / 2)))"
    using negation_does_not_flip_fphi [of "7 / 10" 1 "1 / 2" 0] by simp
  with f f' r show ?thesis by simp
qed

section \<open>Dependence on the width-to-diameter ratio\<close>

text \<open>
  Claim C10. The parameter \<open>B2D\<close> enters the two branches differently. In the pure
  rotation branch the result does not depend on it: the force at \<open>b1\<close> is the force at
  \<open>b2\<close>, and for \<open>eps\<close> strictly between 0 and 1 it is a pair with \<open>fr > 0\<close> and
  \<open>fphi < 0\<close> that is not scaled by \<open>k\<^sup>2\<close> unless \<open>k\<^sup>2 = 1\<close>. In the rotation and squeeze
  branch, that is whenever \<open>(epsS, phiS)\<close> is not \<open>(0, 0)\<close>, both force components scale with
  the square of \<open>B2D\<close>: replacing \<open>b\<close> by \<open>k b\<close> multiplies both by \<open>k\<^sup>2\<close> (a failing
  evaluation fails for every \<open>B2D\<close>). For \<open>eps\<close> strictly between 0 and 1 and
  \<open>epsS \<noteq> 0\<close> the evaluation succeeds and returns the scaled pair; for \<open>epsS > 0\<close>,
  \<open>phiS \<noteq> 1 / 2\<close> and \<open>b \<noteq> 0\<close> the tangential force is strictly negative, so that the
  result at \<open>k b\<close> differs from the result at \<open>b\<close> whenever \<open>k\<^sup>2 \<noteq> 1\<close>.
\<close>

theorem C10_B2D_scaling:
  "fun_short_bearing eps 0 0 b1 = fun_short_bearing eps 0 0 b2
   \<and> (0 < eps \<and> eps < 1 \<and> k ^ 2 \<noteq> 1 \<longrightarrow>
        (\<exists>fr fphi. fun_short_bearing eps 0 0 b = Inr (fr, fphi) \<and> 0 < fr \<and> fphi < 0
           \<and> fun_short_bearing eps 0 0 (k * b) \<noteq> Inr (k ^ 2 * fr, k ^ 2 * fphi)))
   \<and> (\<not> (epsS = 0 \<and> phiS = 0) \<longrightarrow>
        fun_short_bearing eps epsS phiS (k * b) =
          map_sum id (\<lambda>(fr, fphi). (k ^ 2 * fr, k ^ 2 * fphi))
            (fun_short_bearing eps epsS phiS b))
   \<and> (0 < eps \<and> eps < 1 \<and> epsS \<noteq> 0 \<longrightarrow>
        (\<exists>fr fphi. fun_short_bearing eps epsS phiS b = Inr (fr, fphi)
           \<and> fun_short_bearing eps epsS phiS (k * b) = Inr (k ^ 2 * fr, k ^ 2 * fphi)))
   \<and> (0 < eps \<and> eps < 1 \<and> 0 < epsS \<and> phiS \<noteq> 1 / 2 \<and> b \<noteq> 0 \<and> k ^ 2 \<noteq> 1 \<longrightarrow>
        (\<exists>fr fphi. fun_short_bearing eps epsS phiS b = Inr (fr, fphi) \<and> fphi < 0
           \<and> fun_short_bearing eps epsS phiS (k * b) = Inr (k ^ 2 * fr, k ^ 2 * fphi)
           \<and> fun_short_bearing eps epsS phiS (k * b) \<noteq> fun_short_bearing eps epsS phiS b))"
proof (intro conjI impI)
  show "fun_short_bearing eps 0 0 b1 = fun_short_bearing eps 0 0 b2"
    by (simp add: fun_short_bearing_def)
next
  assume a: "0 < eps \<and> eps < 1 \<and> k ^ 2 \<noteq> 1"
  then obtain fr fphi where f: "fun_short_bearing eps 0 0 b = Inr (fr, fphi)"
    and s: "0 < fr" "fphi < 0"
    using pure_rotation_signs [of eps b] by blast
  have i: "fun_short_bearing eps 0 0 (k * b) = fun_short_bearing eps 0 0 b"
    by (simp add: fun_short_bearing_def)
  have "k ^ 2 * fr \<noteq> fr" using a s(1) by simp
  then have "fun_short_bearing eps 0 0 (k * b) \<noteq> Inr (k ^ 2 * fr, k ^ 2 * fphi)"
    unfolding i f by simp
  with f s show "\<exists>fr fphi. fun_short_bearing eps 0 0 b = Inr (fr, fphi) \<and> 0 < fr \<and> fphi < 0
           \<and> fun_short_bearing eps 0 0 (k * b) \<noteq> Inr (k ^ 2 * fr, k ^ 2 * fphi)"
    by blast
next
  assume "\<not> (epsS = 0 \<and> phiS = 0)"
  then show "fun_short_bearing eps epsS phiS (k * b) =
          map_sum id (\<lambda>(fr, fphi). (k ^ 2 * fr, k ^ 2 * fphi))
            (fun_short_bearing eps epsS phiS b)"
    by (rule B2D_scaling)
next
  assume a: "0 < eps \<and> eps < 1 \<and> epsS \<noteq> 0"
  then obtain fr fphi where f: "fun_short_bearing eps epsS phiS b = Inr (fr, fphi)"
    using fun_short_bearing_defined [of eps epsS phiS b] by blast
  have "\<not> (epsS = 0 \<and> phiS = 0)" using a by simp
  from B2D_scaling [OF this, of eps k b]
  have "fun_short_bearing eps epsS phiS (k * b) = Inr (k ^ 2 * fr, k ^ 2 * fphi)"
    unfolding f by simp
  with f show "\<exists>fr fphi. fun_short_bearing eps epsS phiS b = Inr (fr, fphi)
           \<and> fun_short_bearing eps epsS phiS (k * b) = Inr (k ^ 2 * fr, k ^ 2 * fphi)"
    by blast
next
  assume a: "0 < eps \<and> eps < 1 \<and> 0 < epsS \<and> phiS \<noteq> 1 / 2 \<and> b \<noteq> 0 \<and> k ^ 2 \<noteq> 1"
  then obtain fr fphi where f: "fun_short_bearing eps epsS phiS b = Inr (fr, fphi)"
    and s: "fphi < 0"
    using squeeze_depends_on_B2D [of eps epsS phiS b] by blast
  have "\<not> (epsS = 0 \<and> phiS = 0)" using a by simp
  from B2D_scaling [OF this, of eps k b]
  have v: "fun_short_bearing eps epsS phiS (k * b) = Inr (k ^ 2 * fr, k ^ 2 * fphi)"
    unfolding f by simp
  have "k ^ 2 * fphi \<noteq> fphi" using a s by simp
  then have "fun_short_bearing eps epsS phiS (k * b) \<noteq> fun_short_bearing eps epsS phiS b"
    unfolding v f by simp
  with f s v show "\<exists>fr fphi. fun_short_bearing eps epsS phiS b = Inr (fr, fphi) \<and> fphi < 0
           \<and> fun_short_bearing eps epsS phiS (k * b) = Inr (k ^ 2 * fr, k ^ 2 * fphi)
           \<and> fun_short_bearing eps epsS phiS (k * b) \<noteq> fun_short_bearing eps epsS phiS b"
    by blast
qed

theorem C10_B2D_scaling_witness:
  "fun_short_bearing (7 / 10) 0 0 (1 / 2) = fun_short_bearing (7 / 10) 0 0 3
   \<and> (\<exists>fr fphi. fun_short_bearing (7 / 10) 0 0 (1 / 2) = Inr (fr, fphi) \<and> 0 < fr \<and> fphi < 0
         \<and> fun_short_bearing (7 / 10) 0 0 (2 * (1 / 2)) \<noteq> Inr (2 ^ 2 * fr, 2 ^ 2 * fphi))
   \<and> (\<exists>fr fphi. fun_short_bearing (7 / 10) 1 1 (1 / 2) = Inr (fr, fphi) \<and> fphi < 0
         \<and> fun_short_bearing (7 / 10) 1 1 (2 * (1 / 2)) = Inr (2 ^ 2 * fr, 2 ^ 2 * fphi)
         \<and> fun_short_bearing (7 / 10) 1 1 (2 * (1 / 2)) \<noteq> fun_short_bearing (7 / 10) 1 1 (1 / 2))"
proof -
  have h1: "0 < (7 / 10 :: real) \<and> (7 / 10 :: real) < 1 \<and> (2 :: real) ^ 2 \<noteq> 1" by simp
  have h2: "0 < (7 / 10 :: real) \<and> (7 / 10 :: real) < 1 \<and> 0 < (1 :: real)
      \<and> (1 :: real) \<noteq> 1 / 2 \<and> (1 / 2 :: real) \<noteq> 0 \<and> (2 :: real) ^ 2 \<noteq> 1" by simp
  from C10_B2D_scaling [of "7 / 10" "1 / 2" 3 2 "1 / 2" 1 1] h1 h2
  show ?thesis by blast
qed

end
